theory Spec2Isabelle
  imports Main
begin

section \<open>Data model\<close>

subsection \<open>Errors\<close>

text \<open>
  A rejection of a collaborator (the content-delivery client, the access-identity
  provisioner, the bucket-policy granter) is an AWS error, which carries a \<open>code\<close>.
  The module itself throws \<open>new Error(message)\<close>, and reading a property of
  \<open>undefined\<close> throws a \<open>TypeError\<close>; neither has a \<open>code\<close>.
\<close>

record aws_error =
  code :: string
  message :: string

datatype error =
    Error string
  | TypeError string
  | AWSError aws_error

fun error_code :: "error \<Rightarrow> string option" where
  "error_code (Error m) = None"
| "error_code (TypeError m) = None"
| "error_code (AWSError e) = Some (code e)"

subsection \<open>Inputs (\<open>CloudFrontInputs\<close>, \<open>Origin\<close>)\<close>

text \<open>
  The declarations of \<open>../../types\<close> are taken from the input schema:
  \<open>{origins: Array<string | {url, path?, headers?, private?}>, defaults?, comment, enabled}\<close>.
  The field \<open>private\<close> is named \<open>origin_private\<close> here.
\<close>

record Origin =
  url :: string
  path :: "string option"
  headers :: "(string \<times> string) list option"
  origin_private :: "bool option"

datatype origin_input = OriginString string | OriginObject Origin

record forward_defaults =
  fwd_cookies :: "string option"
  fwd_queryString :: "bool option"
  fwd_headers :: "string list option"

record cache_defaults =
  allowedHttpMethods :: "string list option"
  forward :: "forward_defaults option"
  minTTL :: "nat option"
  maxTTL :: "nat option"
  defaultTTL :: "nat option"
  viewerProtocolPolicy :: "string option"

record CloudFrontInputs =
  origins :: "origin_input list"
  defaults :: "cache_defaults option"
  comment :: string
  enabled :: bool

subsection \<open>Provider shapes (\<open>CloudFront.*\<close>)\<close>

record s3_origin_config =
  OriginAccessIdentity :: string

record custom_origin_config =
  HTTPPort :: nat
  HTTPSPort :: nat
  OriginProtocolPolicy :: string

record cf_origin =
  origin_Id :: string
  DomainName :: string
  OriginPath :: "string option"
  CustomHeaders :: "(string \<times> string) list option"
  S3OriginConfig :: "s3_origin_config option"
  CustomOriginConfig :: "custom_origin_config option"

record cf_origins =
  Quantity :: nat
  Items :: "cf_origin list"

record cache_behavior =
  PathPattern :: string
  cb_TargetOriginId :: string

record cf_cache_behaviors =
  cb_Quantity :: nat
  cb_Items :: "cache_behavior list"

record cf_aliases =
  al_Quantity :: nat
  al_Items :: "string list"

record forwarded_values =
  QueryString :: bool
  Cookies :: string
  Headers :: "string list"

record default_cache_behavior =
  TargetOriginId :: string
  ViewerProtocolPolicy :: string
  AllowedMethods :: "string list"
  ForwardedValues :: forwarded_values
  MinTTL :: nat
  DefaultTTL :: nat
  MaxTTL :: nat

record distribution_config =
  CallerReference :: string
  Comment :: string
  Aliases :: "cf_aliases option"
  Origins :: cf_origins
  PriceClass :: "string option"
  Enabled :: bool
  HttpVersion :: "string option"
  DefaultCacheBehavior :: default_cache_behavior
  CacheBehaviors :: "cf_cache_behaviors option"

record create_request =
  cr_DistributionConfig :: distribution_config

record update_request =
  ur_Id :: string
  ur_IfMatch :: "string option"
  ur_DistributionConfig :: distribution_config

record delete_request =
  dr_Id :: string
  dr_IfMatch :: "string option"

record config_response =
  DistributionConfig :: "distribution_config option"
  ETag :: "string option"

record distribution =
  dist_Id :: string
  ARN :: string
  dist_DomainName :: string

record distribution_response =
  Distribution :: "distribution option"

text \<open>The value the lifecycle operations return: \<open>{id, arn, url}\<close>.\<close>

record result =
  res_id :: "string option"
  res_arn :: "string option"
  res_url :: string

record access_identity =
  originAccessIdentityId :: string
  s3CanonicalUserId :: string

subsection \<open>Calls to the collaborators\<close>

text \<open>
  The state the module acts on is the sequence of calls it has issued to its
  collaborators, oldest first.
\<close>

datatype call =
    GetDistributionConfig string
  | CreateDistribution create_request
  | UpdateDistribution update_request
  | DeleteDistribution delete_request
  | CreateOriginAccessIdentity
  | GrantCloudFrontBucketAccess string string

text \<open>A promise that has settled: when it did, and how.\<close>

record 'a settled =
  settled_at :: nat
  outcome :: "aws_error + 'a"

text \<open>
  The collaborators. \<open>parseInputOrigins\<close>, \<open>getDefaultCacheBehavior\<close>,
  \<open>createOriginAccessIdentity\<close> and \<open>grantCloudFrontBucketAccess\<close> are modules of the
  package that \<open>index.ts\<close> imports; the \<open>cf_\<close> fields are the methods of the
  \<open>CloudFront\<close> client. Every answer of a remote collaborator may depend on all the
  calls issued so far. A bucket-policy grant is answered once the whole batch has been
  issued: it is identified by its position in the batch. \<open>parseInputOrigins\<close> and
  \<open>getDefaultCacheBehavior\<close> are functions of their arguments, and return.
\<close>

record env =
  parseInputOrigins :: "origin_input list \<Rightarrow> string option \<Rightarrow> cf_origins \<times> cf_cache_behaviors option"
  getDefaultCacheBehavior :: "string \<Rightarrow> cache_defaults option \<Rightarrow> default_cache_behavior"
  createOriginAccessIdentity :: "call list \<Rightarrow> aws_error + access_identity"
  grantCloudFrontBucketAccess :: "call list \<Rightarrow> nat \<Rightarrow> unit settled"
  cf_getDistributionConfig :: "call list \<Rightarrow> string \<Rightarrow> aws_error + config_response"
  cf_createDistribution :: "call list \<Rightarrow> create_request \<Rightarrow> aws_error + distribution_response"
  cf_updateDistribution :: "call list \<Rightarrow> update_request \<Rightarrow> aws_error + distribution_response"
  cf_deleteDistribution :: "call list \<Rightarrow> delete_request \<Rightarrow> aws_error + unit"
  Date_now :: "call list \<Rightarrow> nat"

section \<open>Asynchronous computations\<close>

type_synonym 'a io = "call list \<Rightarrow> (error + 'a) \<times> call list"

definition return :: "'a \<Rightarrow> 'a io" where
  "return x log = (Inr x, log)"

definition throw :: "error \<Rightarrow> 'a io" where
  "throw e log = (Inl e, log)"

text \<open>\<open>await m f\<close>: run \<open>m\<close>; a rejection propagates, a value is passed on to \<open>f\<close>.\<close>

definition await :: "'a io \<Rightarrow> ('a \<Rightarrow> 'b io) \<Rightarrow> 'b io" where
  "await m f log =
     (case m log of
        (Inl e, log') \<Rightarrow> (Inl e, log')
      | (Inr x, log') \<Rightarrow> f x log')"

text \<open>A call to a remote collaborator is recorded, and answered from the calls before it.\<close>

definition request :: "call \<Rightarrow> (call list \<Rightarrow> aws_error + 'a) \<Rightarrow> 'a io" where
  "request c answer log =
     (case answer log of
        Inl e \<Rightarrow> (Inl (AWSError e), log @ [c])
      | Inr x \<Rightarrow> (Inr x, log @ [c]))"

subsection \<open>\<open>Promise.all\<close>\<close>

fun rejections :: "'a settled list \<Rightarrow> (nat \<times> aws_error) list" where
  "rejections [] = []"
| "rejections (s # ss) =
     (case outcome s of
        Inl e \<Rightarrow> (settled_at s, e) # rejections ss
      | Inr v \<Rightarrow> rejections ss)"

fun fulfilled :: "'a settled list \<Rightarrow> 'a list" where
  "fulfilled [] = []"
| "fulfilled (s # ss) =
     (case outcome s of
        Inl e \<Rightarrow> fulfilled ss
      | Inr v \<Rightarrow> v # fulfilled ss)"

text \<open>The rejection that settled first (the earlier position wins a tie).\<close>

fun earliest :: "nat \<times> 'e \<Rightarrow> (nat \<times> 'e) list \<Rightarrow> nat \<times> 'e" where
  "earliest r [] = r"
| "earliest r (x # xs) = earliest (if fst x < fst r then x else r) xs"

definition Promise_all :: "'a settled list \<Rightarrow> error + 'a list" where
  "Promise_all ss =
     (case rejections ss of
        [] \<Rightarrow> Inr (fulfilled ss)
      | r # rs \<Rightarrow> Inl (AWSError (snd (earliest r rs))))"

section \<open>The module \<open>index.ts\<close>\<close>

fun origin_is_private :: "origin_input \<Rightarrow> bool" where
  "origin_is_private (OriginString s) = False"
| "origin_is_private (OriginObject ob) = (origin_private ob = Some True)"

definition servePrivateContentEnabled :: "CloudFrontInputs \<Rightarrow> bool" where
  "servePrivateContentEnabled inputs = list_ex origin_is_private (origins inputs)"

definition updateBucketsPolicies :: "env \<Rightarrow> cf_origins \<Rightarrow> string \<Rightarrow> unit list io" where
  "updateBucketsPolicies env origins' s3CanonicalUserId' log =
     (let bucketNames =
            map origin_Id (filter (\<lambda>origin. S3OriginConfig origin \<noteq> None) (Items origins'));
          log' = log @ map (\<lambda>bucketName. GrantCloudFrontBucketAccess bucketName s3CanonicalUserId')
                         bucketNames
      in (Promise_all (map (grantCloudFrontBucketAccess env log') [0..<length bucketNames]),
          log'))"

text \<open>\<open>if (s3CanonicalUserId)\<close>: \<open>undefined\<close> and the empty string are falsy.\<close>

fun truthy :: "string option \<Rightarrow> bool" where
  "truthy None = False"
| "truthy (Some s) = (s \<noteq> [])"

text \<open>\<open>Origins.Items[0].Id\<close>: \<open>Items[0]\<close> of an empty array is \<open>undefined\<close>.\<close>

definition first_origin_Id :: "cf_origins \<Rightarrow> string io" where
  "first_origin_Id origins' =
     (case Items origins' of
        [] \<Rightarrow> throw (TypeError ''Cannot read property 'Id' of undefined'')
      | origin # rest \<Rightarrow> return (origin_Id origin))"

text \<open>\<open>String(n)\<close> of a non-negative integer.\<close>

definition digit :: "nat \<Rightarrow> char" where
  "digit d = ''0123456789'' ! d"

fun String :: "nat \<Rightarrow> string" where
  "String n =
     (if n < 10 then [digit n]
      else String (n div 10) @ [digit (n mod 10)])"

declare String.simps [simp del]

text \<open>\<open>{id: res?.Distribution?.Id, arn: res?.Distribution?.ARN, url: `https://${...}`}\<close>\<close>

definition distribution_result :: "distribution_response \<Rightarrow> result" where
  "distribution_result res =
     \<lparr>res_id = map_option dist_Id (Distribution res),
      res_arn = map_option ARN (Distribution res),
      res_url = ''https://'' @
        (case Distribution res of None \<Rightarrow> ''undefined'' | Some d \<Rightarrow> dist_DomainName d)\<rparr>"

definition createCloudFrontDistribution :: "env \<Rightarrow> CloudFrontInputs \<Rightarrow> result io" where
  "createCloudFrontDistribution env inputs =
     await
       (if servePrivateContentEnabled inputs
        then await (request CreateOriginAccessIdentity (createOriginAccessIdentity env))
               (\<lambda>r. return (Some (originAccessIdentityId r), Some (s3CanonicalUserId r)))
        else return (None, None))
       (\<lambda>(originAccessIdentityId', s3CanonicalUserId').
          case parseInputOrigins env (origins inputs) originAccessIdentityId' of
            (Origins', CacheBehaviors') \<Rightarrow>
          await
            (if truthy s3CanonicalUserId'
             then await (updateBucketsPolicies env Origins' (the s3CanonicalUserId'))
                    (\<lambda>granted. return ())
             else return ())
            (\<lambda>u. await (\<lambda>log. (Inr (String (Date_now env log)), log))
            (\<lambda>callerReference. await (first_origin_Id Origins')
            (\<lambda>targetOriginId.
               await
                 (let createDistributionRequest =
                    \<lparr>cr_DistributionConfig =
                       \<lparr>CallerReference = callerReference,
                        Comment = comment inputs,
                        Aliases = Some \<lparr>al_Quantity = 0, al_Items = []\<rparr>,
                        Origins = Origins',
                        PriceClass = Some ''PriceClass_All'',
                        Enabled = enabled inputs,
                        HttpVersion = Some ''http2'',
                        DefaultCacheBehavior =
                          getDefaultCacheBehavior env targetOriginId (defaults inputs),
                        CacheBehaviors = CacheBehaviors'\<rparr>\<rparr>
                  in request (CreateDistribution createDistributionRequest)
                       (\<lambda>log. cf_createDistribution env log createDistributionRequest))
                 (\<lambda>res. return (distribution_result res))))))"

definition updateCloudFrontDistribution ::
    "env \<Rightarrow> string \<Rightarrow> CloudFrontInputs \<Rightarrow> result io" where
  "updateCloudFrontDistribution env distributionId inputs =
     await (request (GetDistributionConfig distributionId)
              (\<lambda>log. cf_getDistributionConfig env log distributionId))
       (\<lambda>distributionConfigResponse.
          case DistributionConfig distributionConfigResponse of
            None \<Rightarrow> throw (Error ''Could not get a distribution config'')
          | Some fetched \<Rightarrow>
          await
            (if servePrivateContentEnabled inputs
             then await (request CreateOriginAccessIdentity (createOriginAccessIdentity env))
                    (\<lambda>r. return (Some (originAccessIdentityId r), Some (s3CanonicalUserId r)))
             else return (None, None))
            (\<lambda>(originAccessIdentityId', s3CanonicalUserId').
               case parseInputOrigins env (origins inputs) originAccessIdentityId' of
                 (Origins', CacheBehaviors') \<Rightarrow>
               await
                 (if truthy s3CanonicalUserId'
                  then await (updateBucketsPolicies env Origins' (the s3CanonicalUserId'))
                         (\<lambda>granted. return ())
                  else return ())
                 (\<lambda>u. await (first_origin_Id Origins')
                 (\<lambda>targetOriginId.
                    await
                      (let updateDistributionRequest =
                         \<lparr>ur_Id = distributionId,
                          ur_IfMatch = ETag distributionConfigResponse,
                          ur_DistributionConfig =
                            \<lparr>CallerReference = CallerReference fetched,
                             Comment = comment inputs,
                             Aliases = None,
                             Origins = Origins',
                             PriceClass = None,
                             Enabled = enabled inputs,
                             HttpVersion = None,
                             DefaultCacheBehavior =
                               getDefaultCacheBehavior env targetOriginId (defaults inputs),
                             CacheBehaviors = CacheBehaviors'\<rparr>\<rparr>
                       in request (UpdateDistribution updateDistributionRequest)
                            (\<lambda>log. cf_updateDistribution env log updateDistributionRequest))
                      (\<lambda>res. return (distribution_result res))))))"

definition disableCloudFrontDistribution :: "env \<Rightarrow> string \<Rightarrow> result io" where
  "disableCloudFrontDistribution env distributionId =
     await (request (GetDistributionConfig distributionId)
              (\<lambda>log. cf_getDistributionConfig env log distributionId))
       (\<lambda>distributionConfigResponse.
          case DistributionConfig distributionConfigResponse of
            None \<Rightarrow> throw (Error ''Could not get a distribution config'')
          | Some fetched \<Rightarrow>
          await
            (let updateDistributionRequest =
               \<lparr>ur_Id = distributionId,
                ur_IfMatch = ETag distributionConfigResponse,
                ur_DistributionConfig =
                  \<lparr>CallerReference = CallerReference fetched,
                   Comment = Comment fetched,
                   Aliases = None,
                   Origins = Origins fetched,
                   PriceClass = None,
                   Enabled = False,
                   HttpVersion = None,
                   DefaultCacheBehavior = DefaultCacheBehavior fetched,
                   CacheBehaviors = None\<rparr>\<rparr>
             in request (UpdateDistribution updateDistributionRequest)
                  (\<lambda>log. cf_updateDistribution env log updateDistributionRequest))
            (\<lambda>res. return (distribution_result res)))"

text \<open>\<open>try { ... } catch (e) { ... }\<close>\<close>

definition try_catch :: "'a io \<Rightarrow> (error \<Rightarrow> 'a io) \<Rightarrow> 'a io" where
  "try_catch m handler log =
     (case m log of
        (Inl e, log') \<Rightarrow> handler e log'
      | (Inr x, log') \<Rightarrow> (Inr x, log'))"

definition deleteCloudFrontDistribution :: "env \<Rightarrow> string \<Rightarrow> unit io" where
  "deleteCloudFrontDistribution env distributionId =
     try_catch
       (await (request (GetDistributionConfig distributionId)
                 (\<lambda>log. cf_getDistributionConfig env log distributionId))
          (\<lambda>res.
             let params = \<lparr>dr_Id = distributionId, dr_IfMatch = ETag res\<rparr>
             in request (DeleteDistribution params)
                  (\<lambda>log. cf_deleteDistribution env log params)))
       (\<lambda>e. if error_code e = Some ''DistributionNotDisabled''
            then await (disableCloudFrontDistribution env distributionId)
                   (\<lambda>disabled. return ())
            else throw e)"

section \<open>The imported modules, as the specification describes them\<close>

text \<open>
  Modelled from the spec: what the specification of \<open>parseInputOrigins\<close> leaves open,
  as parameters: how an origin's \<open>Id\<close> is generated from its position and domain, which
  structured origins are storage buckets, how an access identity is referred to, and the
  configuration of a custom origin.
\<close>

record parse_parameters =
  generate_Id :: "nat \<Rightarrow> string \<Rightarrow> string"
  is_bucket :: "string \<Rightarrow> bool"
  identity_reference :: "string option \<Rightarrow> string"
  custom_config :: custom_origin_config

text \<open>
  Modelled from the spec: the entry of \<open>Origins.Items\<close> that \<open>parseInputOrigins\<close> makes
  for the input origin at position \<open>i\<close>. A bare string is a storage-bucket domain; a
  structured origin is storage-bucket-backed or custom-HTTP-backed, carries its path and
  headers, and refers to the access identity when it is private.
\<close>

fun parse_origin :: "parse_parameters \<Rightarrow> string option \<Rightarrow> nat \<Rightarrow> origin_input \<Rightarrow> cf_origin" where
  "parse_origin P oai i (OriginString s) =
     \<lparr>origin_Id = generate_Id P i s, DomainName = s, OriginPath = None, CustomHeaders = None,
      S3OriginConfig = Some \<lparr>OriginAccessIdentity = []\<rparr>, CustomOriginConfig = None\<rparr>"
| "parse_origin P oai i (OriginObject ob) =
     (if is_bucket P (url ob)
      then \<lparr>origin_Id = generate_Id P i (url ob), DomainName = url ob, OriginPath = path ob,
            CustomHeaders = headers ob,
            S3OriginConfig = Some \<lparr>OriginAccessIdentity =
              (if origin_private ob = Some True then identity_reference P oai else [])\<rparr>,
            CustomOriginConfig = None\<rparr>
      else \<lparr>origin_Id = generate_Id P i (url ob), DomainName = url ob, OriginPath = path ob,
            CustomHeaders = headers ob,
            S3OriginConfig = None,
            CustomOriginConfig = Some (custom_config P)\<rparr>)"

text \<open>
  Modelled from the spec: the entry of \<open>CacheBehaviors.Items\<close> that \<open>parseInputOrigins\<close>
  makes for a structured origin with a \<open>path\<close>; an origin without a path gives none.
\<close>

fun parse_behavior :: "parse_parameters \<Rightarrow> nat \<Rightarrow> origin_input \<Rightarrow> cache_behavior list" where
  "parse_behavior P i (OriginString s) = []"
| "parse_behavior P i (OriginObject ob) =
     (case path ob of
        None \<Rightarrow> []
      | Some p \<Rightarrow> [\<lparr>PathPattern = p, cb_TargetOriginId = generate_Id P i (url ob)\<rparr>])"

text \<open>
  Modelled from the spec: \<open>parseInputOrigins\<close> (\<open>./parseInputOrigins\<close>), the origin
  parser. Every input origin gives one entry of \<open>Origins.Items\<close>, in order and counted;
  a bare string is a storage-bucket domain; a structured origin with \<open>private: true\<close>
  refers to the access identity; a structured origin with a \<open>path\<close> also gives an entry
  of \<open>CacheBehaviors.Items\<close> routing that path to it; \<open>CacheBehaviors\<close> is absent when
  there is no such entry.
\<close>

definition parseInputOrigins_spec ::
    "parse_parameters \<Rightarrow> origin_input list \<Rightarrow> string option
       \<Rightarrow> cf_origins \<times> cf_cache_behaviors option" where
  "parseInputOrigins_spec P inputOrigins oai =
     (let items = map (\<lambda>(i, origin). parse_origin P oai i origin) (enumerate 0 inputOrigins);
          behaviors = concat (map (\<lambda>(i, origin). parse_behavior P i origin)
                                  (enumerate 0 inputOrigins))
      in (\<lparr>Quantity = length items, Items = items\<rparr>,
          if behaviors = [] then None
          else Some \<lparr>cb_Quantity = length behaviors, cb_Items = behaviors\<rparr>))"

text \<open>An option of the inputs overrides a hard-coded default.\<close>

fun override :: "'a \<Rightarrow> 'a option \<Rightarrow> 'a" where
  "override hard None = hard"
| "override hard (Some v) = v"

text \<open>
  Modelled from the spec: \<open>getDefaultCacheBehavior\<close> (\<open>./getDefaultCacheBehavior\<close>), the
  default cache behavior builder. The record is bound to the given origin id; each
  recognised option overrides a hard-coded default (the record \<open>hard\<close>, whose
  \<open>TargetOriginId\<close> is not used), an absent option falls back to it.
\<close>

definition getDefaultCacheBehavior_spec ::
    "default_cache_behavior \<Rightarrow> string \<Rightarrow> cache_defaults option \<Rightarrow> default_cache_behavior" where
  "getDefaultCacheBehavior_spec hard originId options =
     (let fwd = Option.bind options forward
      in \<lparr>TargetOriginId = originId,
          ViewerProtocolPolicy =
            override (ViewerProtocolPolicy hard) (Option.bind options viewerProtocolPolicy),
          AllowedMethods =
            override (AllowedMethods hard) (Option.bind options allowedHttpMethods),
          ForwardedValues =
            \<lparr>QueryString =
               override (QueryString (ForwardedValues hard)) (Option.bind fwd fwd_queryString),
             Cookies = override (Cookies (ForwardedValues hard)) (Option.bind fwd fwd_cookies),
             Headers = override (Headers (ForwardedValues hard)) (Option.bind fwd fwd_headers)\<rparr>,
          MinTTL = override (MinTTL hard) (Option.bind options minTTL),
          DefaultTTL = override (DefaultTTL hard) (Option.bind options defaultTTL),
          MaxTTL = override (MaxTTL hard) (Option.bind options maxTTL)\<rparr>)"

section \<open>Observing and comparing runs\<close>

text \<open>The calls a computation issues when it is started after \<open>log\<close>.\<close>

definition calls_of :: "'a io \<Rightarrow> call list \<Rightarrow> call list" where
  "calls_of m log = drop (length log) (snd (m log))"

fun is_grant :: "call \<Rightarrow> bool" where
  "is_grant (GrantCloudFrontBucketAccess bucketName userId) = True"
| "is_grant c = False"

text \<open>The requests that were submitted, among the calls issued.\<close>

fun submitted_creates :: "call list \<Rightarrow> create_request list" where
  "submitted_creates [] = []"
| "submitted_creates (CreateDistribution req # cs) = req # submitted_creates cs"
| "submitted_creates (c # cs) = submitted_creates cs"

fun submitted_updates :: "call list \<Rightarrow> update_request list" where
  "submitted_updates [] = []"
| "submitted_updates (UpdateDistribution req # cs) = req # submitted_updates cs"
| "submitted_updates (c # cs) = submitted_updates cs"

fun submitted_deletes :: "call list \<Rightarrow> delete_request list" where
  "submitted_deletes [] = []"
| "submitted_deletes (DeleteDistribution req # cs) = req # submitted_deletes cs"
| "submitted_deletes (c # cs) = submitted_deletes cs"

text \<open>The same call, with the \<open>Enabled\<close> field of a submitted update set to \<open>b\<close>.\<close>

fun with_Enabled :: "bool \<Rightarrow> call \<Rightarrow> call" where
  "with_Enabled b (UpdateDistribution req) =
     UpdateDistribution
       (req\<lparr>ur_DistributionConfig := (ur_DistributionConfig req)\<lparr>Enabled := b\<rparr>\<rparr>)"
| "with_Enabled b c = c"

text \<open>The grants that the granting step issues for parsed origins.\<close>

definition grants_for :: "cf_origins \<Rightarrow> string \<Rightarrow> call list" where
  "grants_for origins' userId =
     map (\<lambda>origin. GrantCloudFrontBucketAccess (origin_Id origin) userId)
       (filter (\<lambda>origin. S3OriginConfig origin \<noteq> None) (Items origins'))"

text \<open>
  The steps that \<open>createCloudFrontDistribution\<close> (lines 39 to 49, and the read of
  \<open>Origins.Items[0].Id\<close> in line 63) and \<open>updateCloudFrontDistribution\<close> (lines 97 to 110
  and 119) have in common, as one computation. It is a device of the proofs:
  \<open>create_prepare\<close> and \<open>update_prepare\<close> below show that both operations run these steps.
\<close>

definition prepare ::
    "env \<Rightarrow> CloudFrontInputs \<Rightarrow> (cf_origins \<times> cf_cache_behaviors option \<times> string) io" where
  "prepare env inputs =
     await
       (if servePrivateContentEnabled inputs
        then await (request CreateOriginAccessIdentity (createOriginAccessIdentity env))
               (\<lambda>r. return (Some (originAccessIdentityId r), Some (s3CanonicalUserId r)))
        else return (None, None))
       (\<lambda>(originAccessIdentityId', s3CanonicalUserId').
          case parseInputOrigins env (origins inputs) originAccessIdentityId' of
            (Origins', CacheBehaviors') \<Rightarrow>
          await
            (if truthy s3CanonicalUserId'
             then await (updateBucketsPolicies env Origins' (the s3CanonicalUserId'))
                    (\<lambda>granted. return ())
             else return ())
            (\<lambda>u. await (first_origin_Id Origins')
            (\<lambda>targetOriginId. return (Origins', CacheBehaviors', targetOriginId))))"

text \<open>
  Nothing fails before the read of \<open>Origins.Items[0].Id\<close>, and \<open>parseInputOrigins\<close> is
  called with the access identity \<open>oai\<close>: either no input origin is private (and \<open>oai\<close> is
  undefined), or the provisioner, invoked after \<open>log\<close>, returns the identity \<open>oai\<close> and,
  when its canonical user id is truthy, the granting step succeeds.
\<close>

definition provisioned :: "env \<Rightarrow> CloudFrontInputs \<Rightarrow> call list \<Rightarrow> string option \<Rightarrow> bool" where
  "provisioned env inputs log oai =
     (if servePrivateContentEnabled inputs
      then (case createOriginAccessIdentity env log of
              Inl e \<Rightarrow> False
            | Inr identity \<Rightarrow>
                oai = Some (originAccessIdentityId identity) \<and>
                (s3CanonicalUserId identity = [] \<or>
                 (case fst (updateBucketsPolicies env
                              (fst (parseInputOrigins env (origins inputs) oai))
                              (s3CanonicalUserId identity)
                              (log @ [CreateOriginAccessIdentity])) of
                    Inl e \<Rightarrow> False
                  | Inr granted \<Rightarrow> True)))
      else oai = None)"

section \<open>A test double of the collaborators\<close>

definition demo_parameters :: parse_parameters where
  "demo_parameters =
     \<lparr>generate_Id = (\<lambda>i domain. ''origin-'' @ String i @ ''-'' @ domain),
      is_bucket = (\<lambda>u. take 4 u \<noteq> ''http''),
      identity_reference = (\<lambda>oai. ''origin-access-identity/cloudfront/'' @ override [] oai),
      custom_config = \<lparr>HTTPPort = 80, HTTPSPort = 443, OriginProtocolPolicy = ''https-only''\<rparr>\<rparr>"

definition demo_hard :: default_cache_behavior where
  "demo_hard =
     \<lparr>TargetOriginId = [],
      ViewerProtocolPolicy = ''redirect-to-https'',
      AllowedMethods = [''HEAD'', ''GET''],
      ForwardedValues = \<lparr>QueryString = False, Cookies = ''none'', Headers = []\<rparr>,
      MinTTL = 0, DefaultTTL = 86400, MaxTTL = 31536000\<rparr>"

definition demo_distribution :: distribution_response where
  "demo_distribution =
     \<lparr>Distribution = Some \<lparr>dist_Id = ''E1'', ARN = ''arn:aws:cloudfront::1:distribution/E1'',
        dist_DomainName = ''d1.cloudfront.net''\<rparr>\<rparr>"

definition demo_identity :: access_identity where
  "demo_identity = \<lparr>originAccessIdentityId = ''OAI1'', s3CanonicalUserId = ''canonical-1''\<rparr>"

text \<open>Inputs without a private origin: a bucket, and a custom origin serving \<open>/api\<close>.\<close>

definition demo_inputs :: CloudFrontInputs where
  "demo_inputs =
     \<lparr>origins =
        [OriginString ''my-bucket'',
         OriginObject \<lparr>url = ''https://api.example.com'', path = Some ''/api'',
           headers = None, origin_private = None\<rparr>],
      defaults = None, comment = ''x'', enabled = True\<rparr>"

text \<open>Inputs with a private bucket, a custom origin and a second bucket.\<close>

definition demo_private_inputs :: CloudFrontInputs where
  "demo_private_inputs =
     \<lparr>origins =
        [OriginObject \<lparr>url = ''my-bucket'', path = None, headers = None,
           origin_private = Some True\<rparr>,
         OriginObject \<lparr>url = ''https://api.example.com'', path = Some ''/api'',
           headers = None, origin_private = None\<rparr>,
         OriginString ''assets''],
      defaults = None, comment = ''x'', enabled = True\<rparr>"

definition demo_bucket :: cf_origin where
  "demo_bucket =
     \<lparr>origin_Id = ''origin-0-my-bucket'', DomainName = ''my-bucket'', OriginPath = None,
      CustomHeaders = None, S3OriginConfig = Some \<lparr>OriginAccessIdentity = []\<rparr>,
      CustomOriginConfig = None\<rparr>"

definition demo_private_bucket :: cf_origin where
  "demo_private_bucket =
     \<lparr>origin_Id = ''origin-0-my-bucket'', DomainName = ''my-bucket'', OriginPath = None,
      CustomHeaders = None,
      S3OriginConfig = Some \<lparr>OriginAccessIdentity = ''origin-access-identity/cloudfront/OAI1''\<rparr>,
      CustomOriginConfig = None\<rparr>"

definition demo_api :: cf_origin where
  "demo_api =
     \<lparr>origin_Id = ''origin-1-https://api.example.com'', DomainName = ''https://api.example.com'',
      OriginPath = Some ''/api'', CustomHeaders = None, S3OriginConfig = None,
      CustomOriginConfig =
        Some \<lparr>HTTPPort = 80, HTTPSPort = 443, OriginProtocolPolicy = ''https-only''\<rparr>\<rparr>"

definition demo_assets :: cf_origin where
  "demo_assets =
     \<lparr>origin_Id = ''origin-2-assets'', DomainName = ''assets'', OriginPath = None,
      CustomHeaders = None, S3OriginConfig = Some \<lparr>OriginAccessIdentity = []\<rparr>,
      CustomOriginConfig = None\<rparr>"

text \<open>What the parser returns for \<open>demo_private_inputs\<close> when there is no access identity.\<close>

definition demo_origins :: cf_origins where
  "demo_origins = \<lparr>Quantity = 3, Items = [demo_bucket, demo_api, demo_assets]\<rparr>"

definition demo_behaviors :: cf_cache_behaviors where
  "demo_behaviors =
     \<lparr>cb_Quantity = 1,
      cb_Items = [\<lparr>PathPattern = ''/api'',
                   cb_TargetOriginId = ''origin-1-https://api.example.com''\<rparr>]\<rparr>"

definition demo_default_behavior :: default_cache_behavior where
  "demo_default_behavior = demo_hard\<lparr>TargetOriginId := ''origin-0-my-bucket''\<rparr>"

text \<open>
  The configuration that \<open>createCloudFrontDistribution\<close> submits for \<open>demo_inputs\<close>, which
  the provider of the test double holds afterwards.
\<close>

definition demo_config :: distribution_config where
  "demo_config =
     \<lparr>CallerReference = ''1604395000123'',
      Comment = ''x'',
      Aliases = Some \<lparr>al_Quantity = 0, al_Items = []\<rparr>,
      Origins = \<lparr>Quantity = 2, Items = [demo_bucket, demo_api]\<rparr>,
      PriceClass = Some ''PriceClass_All'',
      Enabled = True,
      HttpVersion = Some ''http2'',
      DefaultCacheBehavior = demo_default_behavior,
      CacheBehaviors = Some demo_behaviors\<rparr>"

definition demo_response :: config_response where
  "demo_response = \<lparr>DistributionConfig = Some demo_config, ETag = Some ''ETAG1''\<rparr>"

text \<open>
  A provider on which every call succeeds: it holds \<open>demo_config\<close> under the tag
  \<open>ETAG1\<close>, and every grant settles at the instant of its position.
\<close>

definition demo_env :: env where
  "demo_env =
     \<lparr>parseInputOrigins = parseInputOrigins_spec demo_parameters,
      getDefaultCacheBehavior = getDefaultCacheBehavior_spec demo_hard,
      createOriginAccessIdentity = (\<lambda>log. Inr demo_identity),
      grantCloudFrontBucketAccess = (\<lambda>log i. \<lparr>settled_at = i, outcome = Inr ()\<rparr>),
      cf_getDistributionConfig = (\<lambda>log distributionId. Inr demo_response),
      cf_createDistribution = (\<lambda>log req. Inr demo_distribution),
      cf_updateDistribution = (\<lambda>log req. Inr demo_distribution),
      cf_deleteDistribution = (\<lambda>log req. Inr ()),
      Date_now = (\<lambda>log. 1604395000123)\<rparr>"

definition not_disabled :: aws_error where
  "not_disabled =
     \<lparr>code = ''DistributionNotDisabled'',
      message = ''The distribution you are trying to delete has not been disabled.''\<rparr>"

definition precondition_failed :: aws_error where
  "precondition_failed =
     \<lparr>code = ''PreconditionFailed'',
      message = ''The request failed because it did not meet the preconditions.''\<rparr>"


definition access_denied :: aws_error where
  "access_denied = \<lparr>code = ''AccessDenied'', message = ''Access Denied''\<rparr>"

text \<open>Both grants are rejected; the second one settles first.\<close>

definition demo_grants_env :: env where
  "demo_grants_env =
     demo_env\<lparr>grantCloudFrontBucketAccess :=
       (\<lambda>log i. if i = 0 then \<lparr>settled_at = 9, outcome = Inl precondition_failed\<rparr>
                else \<lparr>settled_at = 4, outcome = Inl access_denied\<rparr>)\<rparr>"

text \<open>The distribution is still enabled: the provider refuses to delete it.\<close>

definition demo_enabled_env :: env where
  "demo_enabled_env = demo_env\<lparr>cf_deleteDistribution := (\<lambda>log req. Inl not_disabled)\<rparr>"

text \<open>The same, and the provider also rejects the update that would disable it.\<close>

definition demo_stuck_env :: env where
  "demo_stuck_env =
     demo_enabled_env\<lparr>cf_updateDistribution := (\<lambda>log req. Inl precondition_failed)\<rparr>"

text \<open>The provider answers the fetch with a tag and no configuration.\<close>

definition demo_no_config_env :: env where
  "demo_no_config_env =
     demo_env\<lparr>cf_getDistributionConfig :=
       (\<lambda>log distributionId. Inr \<lparr>DistributionConfig = None, ETag = Some ''ETAG1''\<rparr>)\<rparr>"


text \<open>A parser that returns no origin at all.\<close>

definition demo_empty_env :: env where
  "demo_empty_env =
     demo_env\<lparr>parseInputOrigins := (\<lambda>inputOrigins oai. (\<lparr>Quantity = 0, Items = []\<rparr>, None))\<rparr>"

section \<open>Auxiliary facts\<close>

lemmas io_defs = await_def request_def return_def throw_def try_catch_def

subsection \<open>\<open>Promise.all\<close>\<close>

lemma rejections_Nil_iff:
  "rejections ss = [] \<longleftrightarrow> (\<forall>s \<in> set ss. \<exists>v. outcome s = Inr v)"
  by (induction ss) (auto split: sum.splits)

lemma rejections_set:
  "(t, e) \<in> set (rejections ss) \<longleftrightarrow> (\<exists>s \<in> set ss. settled_at s = t \<and> outcome s = Inl e)"
  by (induction ss) (auto split: sum.splits)

lemma earliest_mem: "earliest r xs \<in> set (r # xs)"
  by (induction xs arbitrary: r) auto

lemma earliest_le: "x \<in> set (r # xs) \<Longrightarrow> fst (earliest r xs) \<le> fst x"
proof (induction xs arbitrary: r x)
  case Nil
  then show ?case by simp
next
  case (Cons y ys)
  let ?r' = "if fst y < fst r then y else r"
  show ?case
  proof (cases "x \<in> set (?r' # ys)")
    case True
    then show ?thesis using Cons.IH [of x ?r'] by simp
  next
    case False
    with Cons.prems have "x = (if fst y < fst r then r else y)"
      by (auto split: if_splits)
    moreover have "fst (earliest ?r' ys) \<le> fst ?r'"
      using Cons.IH [of ?r' ?r'] by simp
    ultimately show ?thesis by (auto split: if_splits)
  qed
qed

lemma Promise_all_fulfilled:
  "(\<exists>vs. Promise_all ss = Inr vs) \<longleftrightarrow> (\<forall>s \<in> set ss. \<exists>v. outcome s = Inr v)"
  by (simp add: Promise_all_def rejections_Nil_iff [symmetric] split: list.splits)

lemma Promise_all_rejected:
  assumes "s0 \<in> set ss" and "outcome s0 = Inl e0"
  shows "\<exists>s \<in> set ss. \<exists>e. outcome s = Inl e \<and> Promise_all ss = Inl (AWSError e) \<and>
           (\<forall>s' \<in> set ss. \<forall>e'. outcome s' = Inl e' \<longrightarrow> settled_at s \<le> settled_at s')"
proof -
  from assms have "(settled_at s0, e0) \<in> set (rejections ss)"
    by (auto simp: rejections_set)
  then obtain r rs where rej: "rejections ss = r # rs"
    by (cases "rejections ss") auto
  obtain t e where first: "earliest r rs = (t, e)"
    by (cases "earliest r rs") auto
  have "(t, e) \<in> set (rejections ss)"
    using earliest_mem [of r rs] by (simp add: rej first)
  then obtain s where s: "s \<in> set ss" "settled_at s = t" "outcome s = Inl e"
    by (auto simp: rejections_set)
  have "settled_at s \<le> settled_at s'" if "s' \<in> set ss" "outcome s' = Inl e'" for s' e'
  proof -
    from that have "(settled_at s', e') \<in> set (r # rs)"
      by (auto simp: rejections_set rej [symmetric])
    from earliest_le [OF this] show ?thesis by (simp add: first s)
  qed
  moreover have "Promise_all ss = Inl (AWSError e)"
    by (simp add: Promise_all_def rej first)
  ultimately show ?thesis using s by blast
qed

subsection \<open>The granting step and the steps before a request\<close>

lemma updateBucketsPolicies_log:
  "snd (updateBucketsPolicies env origins' userId log) = log @ grants_for origins' userId"
  by (simp add: updateBucketsPolicies_def grants_for_def Let_def comp_def)

lemma Promise_all_error: "Promise_all ss = Inl e \<Longrightarrow> \<exists>a. e = AWSError a"
  by (auto simp: Promise_all_def split: list.splits)

lemma updateBucketsPolicies_error:
  "fst (updateBucketsPolicies env origins' userId log) = Inl e \<Longrightarrow> \<exists>a. e = AWSError a"
  by (auto simp: updateBucketsPolicies_def Let_def dest: Promise_all_error)

lemma updateBucketsPolicies_result:
  "fst (updateBucketsPolicies env origins' userId log) =
     Promise_all (map (grantCloudFrontBucketAccess env (log @ grants_for origins' userId))
       [0..<length (grants_for origins' userId)])"
  by (simp add: updateBucketsPolicies_def grants_for_def Let_def comp_def)

lemma prepare_plain:
  assumes "\<not> servePrivateContentEnabled inputs"
  shows "prepare env inputs log =
     (case parseInputOrigins env (origins inputs) None of
        (origins', behaviors') \<Rightarrow>
          (case Items origins' of
             [] \<Rightarrow> (Inl (TypeError ''Cannot read property 'Id' of undefined''), log)
           | origin # rest \<Rightarrow> (Inr (origins', behaviors', origin_Id origin), log)))"
  using assms
  by (auto simp: prepare_def io_defs first_origin_Id_def split: prod.splits list.splits)

lemma prepare_private:
  assumes "servePrivateContentEnabled inputs"
  shows "prepare env inputs log =
     (case createOriginAccessIdentity env log of
        Inl e \<Rightarrow> (Inl (AWSError e), log @ [CreateOriginAccessIdentity])
      | Inr identity \<Rightarrow>
          (case parseInputOrigins env (origins inputs) (Some (originAccessIdentityId identity)) of
             (origins', behaviors') \<Rightarrow>
               (let granted =
                      (if s3CanonicalUserId identity = []
                       then (Inr [], log @ [CreateOriginAccessIdentity])
                       else updateBucketsPolicies env origins' (s3CanonicalUserId identity)
                              (log @ [CreateOriginAccessIdentity]))
                in case fst granted of
                     Inl e \<Rightarrow> (Inl e, snd granted)
                   | Inr done \<Rightarrow>
                       (case Items origins' of
                          [] \<Rightarrow> (Inl (TypeError ''Cannot read property 'Id' of undefined''),
                                 snd granted)
                        | origin # rest \<Rightarrow>
                            (Inr (origins', behaviors', origin_Id origin), snd granted)))))"
  using assms
  by (auto simp: prepare_def io_defs first_origin_Id_def Let_def
           split: prod.splits list.splits sum.splits)

lemma prepare_extends: "\<exists>cs. snd (prepare env inputs log) = log @ cs"
  by (cases "servePrivateContentEnabled inputs")
     (auto simp: prepare_plain prepare_private Let_def updateBucketsPolicies_log
           split: prod.splits list.splits sum.splits)

lemma prepare_plain_calls:
  "\<not> servePrivateContentEnabled inputs \<Longrightarrow> snd (prepare env inputs log) = log"
  by (auto simp: prepare_plain split: prod.splits list.splits)

lemma prepare_private_calls:
  assumes "servePrivateContentEnabled inputs"
  shows "snd (prepare env inputs log) =
     log @ CreateOriginAccessIdentity #
       (case createOriginAccessIdentity env log of
          Inl e \<Rightarrow> []
        | Inr identity \<Rightarrow>
            if s3CanonicalUserId identity = [] then []
            else grants_for
                   (fst (parseInputOrigins env (origins inputs)
                           (Some (originAccessIdentityId identity))))
                   (s3CanonicalUserId identity))"
  using assms
  by (auto simp: prepare_private Let_def updateBucketsPolicies_log
           split: prod.splits list.splits sum.splits)

lemma prepare_result:
  assumes "fst (prepare env inputs log) = Inr (origins', behaviors', targetOriginId)"
  shows "\<exists>oai. parseInputOrigins env (origins inputs) oai = (origins', behaviors') \<and>
           Items origins' \<noteq> [] \<and> targetOriginId = origin_Id (Items origins' ! 0)"
  using assms
  by (cases "servePrivateContentEnabled inputs")
     (auto simp: prepare_plain prepare_private Let_def
           split: prod.splits list.splits sum.splits if_splits)

lemma prepare_in_bounds:
  assumes "\<forall>oai. Items (fst (parseInputOrigins env (origins inputs) oai)) \<noteq> []"
  shows "fst (prepare env inputs log) \<noteq> Inl (TypeError m)"
proof (cases "servePrivateContentEnabled inputs")
  case False
  with assms [rule_format, of None] show ?thesis
    by (auto simp: prepare_plain split: prod.splits list.splits)
next
  case True
  show ?thesis
  proof (cases "createOriginAccessIdentity env log")
    case (Inl e)
    with True show ?thesis by (simp add: prepare_private)
  next
    case (Inr identity)
    with True assms [rule_format, of "Some (originAccessIdentityId identity)"] show ?thesis
      by (auto simp: prepare_private Let_def
               split: prod.splits list.splits sum.splits if_splits
               dest: updateBucketsPolicies_error)
  qed
qed

lemma prepare_out_of_bounds:
  assumes "\<forall>oai. Items (fst (parseInputOrigins env (origins inputs) oai)) = []"
  shows "\<exists>e. fst (prepare env inputs log) = Inl e \<and>
           (e = TypeError ''Cannot read property 'Id' of undefined'' \<or> (\<exists>a. e = AWSError a))"
proof (cases "servePrivateContentEnabled inputs")
  case False
  with assms [rule_format, of None] show ?thesis
    by (auto simp: prepare_plain split: prod.splits list.splits)
next
  case True
  show ?thesis
  proof (cases "createOriginAccessIdentity env log")
    case (Inl e)
    with True show ?thesis by (simp add: prepare_private)
  next
    case (Inr identity)
    with True assms [rule_format, of "Some (originAccessIdentityId identity)"] show ?thesis
      by (auto simp: prepare_private Let_def
               split: prod.splits list.splits sum.splits if_splits
               dest: updateBucketsPolicies_error)
  qed
qed

lemma prepare_enabled: "prepare env (inputs\<lparr>enabled := b\<rparr>) = prepare env inputs"
  by (simp add: prepare_def servePrivateContentEnabled_def)

subsection \<open>The lifecycle operations, case by case\<close>

lemma create_prepare:
  "createCloudFrontDistribution env inputs log =
     (case prepare env inputs log of
        (Inl e, log') \<Rightarrow> (Inl e, log')
      | (Inr (origins', behaviors', targetOriginId), log') \<Rightarrow>
          (let req = \<lparr>cr_DistributionConfig =
                       \<lparr>CallerReference = String (Date_now env log'),
                        Comment = comment inputs,
                        Aliases = Some \<lparr>al_Quantity = 0, al_Items = []\<rparr>,
                        Origins = origins',
                        PriceClass = Some ''PriceClass_All'',
                        Enabled = enabled inputs,
                        HttpVersion = Some ''http2'',
                        DefaultCacheBehavior =
                          getDefaultCacheBehavior env targetOriginId (defaults inputs),
                        CacheBehaviors = behaviors'\<rparr>\<rparr>
           in (map_sum AWSError distribution_result (cf_createDistribution env log' req),
               log' @ [CreateDistribution req])))"
  by (auto simp: createCloudFrontDistribution_def prepare_def io_defs first_origin_Id_def Let_def
           split: prod.splits sum.splits list.splits)

lemma update_prepare:
  "updateCloudFrontDistribution env i inputs log =
     (case cf_getDistributionConfig env log i of
        Inl e \<Rightarrow> (Inl (AWSError e), log @ [GetDistributionConfig i])
      | Inr response \<Rightarrow>
          (case DistributionConfig response of
             None \<Rightarrow> (Inl (Error ''Could not get a distribution config''),
                       log @ [GetDistributionConfig i])
           | Some fetched \<Rightarrow>
               (case prepare env inputs (log @ [GetDistributionConfig i]) of
                  (Inl e, log') \<Rightarrow> (Inl e, log')
                | (Inr (origins', behaviors', targetOriginId), log') \<Rightarrow>
                    (let req = \<lparr>ur_Id = i,
                                ur_IfMatch = ETag response,
                                ur_DistributionConfig =
                                  \<lparr>CallerReference = CallerReference fetched,
                                   Comment = comment inputs,
                                   Aliases = None,
                                   Origins = origins',
                                   PriceClass = None,
                                   Enabled = enabled inputs,
                                   HttpVersion = None,
                                   DefaultCacheBehavior =
                                     getDefaultCacheBehavior env targetOriginId (defaults inputs),
                                   CacheBehaviors = behaviors'\<rparr>\<rparr>
                     in (map_sum AWSError distribution_result (cf_updateDistribution env log' req),
                         log' @ [UpdateDistribution req])))))"
  by (auto simp: updateCloudFrontDistribution_def prepare_def io_defs first_origin_Id_def Let_def
           split: prod.splits sum.splits list.splits option.splits)

lemma disabled_config:
  "\<lparr>CallerReference = CallerReference fetched, Comment = Comment fetched, Aliases = None,
     Origins = Origins fetched, PriceClass = None, Enabled = False, HttpVersion = None,
     DefaultCacheBehavior = DefaultCacheBehavior fetched, CacheBehaviors = None\<rparr> =
   fetched\<lparr>Enabled := False, Aliases := None, PriceClass := None, HttpVersion := None,
     CacheBehaviors := None\<rparr>"
  by (cases fetched) simp

lemma disable_cases:
  "disableCloudFrontDistribution env i log =
     (case cf_getDistributionConfig env log i of
        Inl e \<Rightarrow> (Inl (AWSError e), log @ [GetDistributionConfig i])
      | Inr response \<Rightarrow>
          (case DistributionConfig response of
             None \<Rightarrow> (Inl (Error ''Could not get a distribution config''),
                       log @ [GetDistributionConfig i])
           | Some fetched \<Rightarrow>
               (let req = \<lparr>ur_Id = i, ur_IfMatch = ETag response,
                           ur_DistributionConfig =
                             fetched\<lparr>Enabled := False, Aliases := None, PriceClass := None,
                               HttpVersion := None, CacheBehaviors := None\<rparr>\<rparr>
                in (map_sum AWSError distribution_result
                      (cf_updateDistribution env (log @ [GetDistributionConfig i]) req),
                    log @ [GetDistributionConfig i, UpdateDistribution req]))))"
  by (auto simp: disableCloudFrontDistribution_def io_defs Let_def disabled_config
           split: sum.splits option.splits)

lemma delete_cases:
  "deleteCloudFrontDistribution env i log =
     (let recover = (\<lambda>e log'.
            if code e = ''DistributionNotDisabled''
            then (map_sum id (\<lambda>disabled. ()) (fst (disableCloudFrontDistribution env i log')),
                  snd (disableCloudFrontDistribution env i log'))
            else (Inl (AWSError e), log'))
      in case cf_getDistributionConfig env log i of
           Inl e \<Rightarrow> recover e (log @ [GetDistributionConfig i])
         | Inr res \<Rightarrow>
             (case cf_deleteDistribution env (log @ [GetDistributionConfig i])
                     \<lparr>dr_Id = i, dr_IfMatch = ETag res\<rparr> of
                Inl e \<Rightarrow> recover e (log @ [GetDistributionConfig i,
                            DeleteDistribution \<lparr>dr_Id = i, dr_IfMatch = ETag res\<rparr>])
              | Inr done \<Rightarrow> (Inr (), log @ [GetDistributionConfig i,
                            DeleteDistribution \<lparr>dr_Id = i, dr_IfMatch = ETag res\<rparr>])))"
  by (auto simp: deleteCloudFrontDistribution_def io_defs Let_def
           split: prod.splits sum.splits)

subsection \<open>The test double, evaluated\<close>

lemma demo_parse:
  "parseInputOrigins demo_env (origins demo_inputs) None =
     (\<lparr>Quantity = 2, Items = [demo_bucket, demo_api]\<rparr>, Some demo_behaviors)"
  by (simp add: demo_env_def demo_inputs_def demo_parameters_def parseInputOrigins_spec_def
        enumerate_eq_zip String.simps digit_def upt_rec demo_bucket_def demo_api_def
        demo_behaviors_def)


lemma demo_default:
  "getDefaultCacheBehavior demo_env ''origin-0-my-bucket'' None = demo_default_behavior"
  by (simp add: demo_env_def getDefaultCacheBehavior_spec_def demo_default_behavior_def demo_hard_def)

lemma demo_now: "String (Date_now demo_env log) = ''1604395000123''"
  by (simp add: demo_env_def String.simps digit_def)

lemma demo_get: "cf_getDistributionConfig demo_env log i = Inr demo_response"
  by (simp add: demo_env_def)

lemma demo_response_sel:
  "DistributionConfig demo_response = Some demo_config" "ETag demo_response = Some ''ETAG1''"
  by (simp_all add: demo_response_def)

lemma demo_origins_Items: "Items demo_origins = [demo_bucket, demo_api, demo_assets]"
  by (simp add: demo_origins_def)

lemma demo_selected:
  "S3OriginConfig demo_bucket = Some \<lparr>OriginAccessIdentity = []\<rparr>"
  "S3OriginConfig demo_api = None"
  "S3OriginConfig demo_assets = Some \<lparr>OriginAccessIdentity = []\<rparr>"
  "S3OriginConfig demo_private_bucket =
     Some \<lparr>OriginAccessIdentity = ''origin-access-identity/cloudfront/OAI1''\<rparr>"
  by (simp_all add: demo_bucket_def demo_api_def demo_assets_def demo_private_bucket_def)

lemma demo_Ids:
  "origin_Id demo_bucket = ''origin-0-my-bucket''" "origin_Id demo_assets = ''origin-2-assets''"
  "origin_Id demo_private_bucket = ''origin-0-my-bucket''"
  by (simp_all add: demo_bucket_def demo_assets_def demo_private_bucket_def)

lemma demo_grants:
  "grantCloudFrontBucketAccess demo_grants_env log i =
     (if i = 0 then \<lparr>settled_at = 9, outcome = Inl precondition_failed\<rparr>
      else \<lparr>settled_at = 4, outcome = Inl access_denied\<rparr>)"
  by (simp add: demo_grants_env_def)

section \<open>The bucket-policy granting step\<close>

text \<open>
  Claim C10. For every storage-bucket-backed parsed origin, the bucket name passed to the
  grant call is the origin's \<open>Id\<close>: the calls that \<open>updateBucketsPolicies\<close> issues are,
  in order, one grant per parsed origin that has an \<open>S3OriginConfig\<close>, whose first argument
  is that origin's \<open>Id\<close> (not its \<open>DomainName\<close>) and whose second argument is the
  canonical user id.
\<close>

theorem bucket_name_is_origin_Id:
  "calls_of (updateBucketsPolicies env origins' userId) log =
     map (\<lambda>origin. GrantCloudFrontBucketAccess (origin_Id origin) userId)
       (filter (\<lambda>origin. S3OriginConfig origin \<noteq> None) (Items origins'))"
  by (simp add: calls_of_def updateBucketsPolicies_log grants_for_def)

text \<open>
  Claim C7. The granting step selects exactly the parsed origins that carry an
  \<open>S3OriginConfig\<close> and issues one grant for each of them, and nothing else (no second
  attempt, no call that undoes a grant). It succeeds if and only if every grant succeeds.
  If some grant is rejected, the step fails with the rejection of a grant that no other
  rejected grant settled before: the first rejection. The failure carries that rejection
  only, and every grant of the batch has been issued.
\<close>

theorem bucket_policies_all_or_nothing:
  "let selected = filter (\<lambda>origin. S3OriginConfig origin \<noteq> None) (Items origins');
       issued = log @ map (\<lambda>origin. GrantCloudFrontBucketAccess (origin_Id origin) userId) selected;
       grants = map (grantCloudFrontBucketAccess env issued) [0..<length selected];
       res = updateBucketsPolicies env origins' userId log
   in snd res = issued
    \<and> ((\<exists>vs. fst res = Inr vs) \<longleftrightarrow> (\<forall>g \<in> set grants. \<exists>v. outcome g = Inr v))
    \<and> ((\<exists>g \<in> set grants. \<exists>e. outcome g = Inl e) \<longrightarrow>
         (\<exists>g \<in> set grants. \<exists>e. outcome g = Inl e \<and> fst res = Inl (AWSError e) \<and>
            (\<forall>g' \<in> set grants. \<forall>e'. outcome g' = Inl e' \<longrightarrow> settled_at g \<le> settled_at g')))"
proof -
  let ?selected = "filter (\<lambda>origin. S3OriginConfig origin \<noteq> None) (Items origins')"
  let ?issued = "log @ map (\<lambda>origin. GrantCloudFrontBucketAccess (origin_Id origin) userId) ?selected"
  let ?grants = "map (grantCloudFrontBucketAccess env ?issued) [0..<length ?selected]"
  let ?res = "updateBucketsPolicies env origins' userId log"
  have log: "snd ?res = ?issued"
    by (simp add: updateBucketsPolicies_log grants_for_def)
  have res: "fst ?res = Promise_all ?grants"
    by (simp add: updateBucketsPolicies_result grants_for_def)
  have ok: "(\<exists>vs. fst ?res = Inr vs) \<longleftrightarrow> (\<forall>g \<in> set ?grants. \<exists>v. outcome g = Inr v)"
    unfolding res by (rule Promise_all_fulfilled)
  have ko: "\<exists>g \<in> set ?grants. \<exists>e. outcome g = Inl e \<and> fst ?res = Inl (AWSError e) \<and>
              (\<forall>g' \<in> set ?grants. \<forall>e'. outcome g' = Inl e' \<longrightarrow> settled_at g \<le> settled_at g')"
    if "\<exists>g \<in> set ?grants. \<exists>e. outcome g = Inl e"
  proof -
    from that obtain g e where "g \<in> set ?grants" "outcome g = Inl e" by blast
    from Promise_all_rejected [OF this] show ?thesis unfolding res .
  qed
  from log ok ko show ?thesis unfolding Let_def by blast
qed

text \<open>
  Two buckets and a custom origin; both grants are rejected, the one for the second
  bucket first: the step fails with that rejection, after one grant per bucket.
\<close>

theorem bucket_policies_all_or_nothing_witness:
  "snd (updateBucketsPolicies demo_grants_env demo_origins ''canonical-1'' []) =
     [GrantCloudFrontBucketAccess ''origin-0-my-bucket'' ''canonical-1'',
      GrantCloudFrontBucketAccess ''origin-2-assets'' ''canonical-1''] \<and>
   fst (updateBucketsPolicies demo_grants_env demo_origins ''canonical-1'' []) =
     Inl (AWSError access_denied)"
  using bucket_policies_all_or_nothing [of demo_origins "[]" "''canonical-1''" demo_grants_env]
  by (auto simp add: Let_def demo_origins_Items demo_selected demo_Ids demo_grants less_Suc_eq)

section \<open>Origins that are not private\<close>

lemma not_private:
  assumes "\<forall>ob. OriginObject ob \<in> set (origins inputs) \<longrightarrow> origin_private ob \<noteq> Some True"
  shows "\<not> servePrivateContentEnabled inputs"
proof -
  have "\<not> origin_is_private x" if "x \<in> set (origins inputs)" for x
    by (cases x) (use that assms in auto)
  then show ?thesis unfolding servePrivateContentEnabled_def list_ex_iff by blast
qed

lemma create_plain_calls:
  assumes "\<not> servePrivateContentEnabled inputs"
  shows "set (calls_of (createCloudFrontDistribution env inputs) log) \<subseteq> range CreateDistribution"
  using prepare_plain_calls [OF assms, of env log]
  by (cases "prepare env inputs log")
     (auto simp: calls_of_def create_prepare Let_def split: sum.splits prod.splits)

lemma update_plain_calls:
  assumes "\<not> servePrivateContentEnabled inputs"
  shows "set (calls_of (updateCloudFrontDistribution env i inputs) log) \<subseteq>
           insert (GetDistributionConfig i) (range UpdateDistribution)"
  using prepare_plain_calls [OF assms, of env "log @ [GetDistributionConfig i]"]
  by (cases "prepare env inputs (log @ [GetDistributionConfig i])")
     (auto simp: calls_of_def update_prepare Let_def split: sum.splits prod.splits option.splits)

text \<open>
  Claim C9. If no input origin has \<open>private\<close> strictly equal to \<open>true\<close> (each origin is
  a bare string, or an object whose \<open>private\<close> is absent or \<open>false\<close>), then no call that
  \<open>createCloudFrontDistribution\<close> or \<open>updateCloudFrontDistribution\<close> issues is an
  invocation of the access-identity provisioner or a bucket-policy grant, whatever the
  parsed origins are.
\<close>

theorem no_private_origin_no_provisioning:
  assumes "\<forall>ob. OriginObject ob \<in> set (origins inputs) \<longrightarrow> origin_private ob \<noteq> Some True"
  shows "\<forall>c \<in> set (calls_of (createCloudFrontDistribution env inputs) log) \<union>
               set (calls_of (updateCloudFrontDistribution env distributionId inputs) log).
           c \<noteq> CreateOriginAccessIdentity \<and> \<not> is_grant c"
  using create_plain_calls [OF not_private [OF assms], of env log]
        update_plain_calls [OF not_private [OF assms], of env distributionId log]
  by auto

text \<open>
  The inputs \<open>demo_inputs\<close> have no private origin, and a bucket among the parsed origins:
  create and update issue no provisioning and no grant.
\<close>

theorem no_private_origin_no_provisioning_witness:
  "list_all (\<lambda>origin. \<not> origin_is_private origin) (origins demo_inputs) \<and>
   filter (\<lambda>origin. S3OriginConfig origin \<noteq> None)
     (Items (fst (parseInputOrigins demo_env (origins demo_inputs) None))) = [demo_bucket] \<and>
   filter (\<lambda>c. c = CreateOriginAccessIdentity \<or> is_grant c)
     (calls_of (createCloudFrontDistribution demo_env demo_inputs) []) = [] \<and>
   filter (\<lambda>c. c = CreateOriginAccessIdentity \<or> is_grant c)
     (calls_of (updateCloudFrontDistribution demo_env ''E1'' demo_inputs) []) = []"
proof -
  have plain: "\<forall>ob. OriginObject ob \<in> set (origins demo_inputs) \<longrightarrow> origin_private ob \<noteq> Some True"
    by (auto simp: demo_inputs_def)
  have inputs: "list_all (\<lambda>origin. \<not> origin_is_private origin) (origins demo_inputs)"
    by (simp add: demo_inputs_def)
  have bucket: "filter (\<lambda>origin. S3OriginConfig origin \<noteq> None)
      (Items (fst (parseInputOrigins demo_env (origins demo_inputs) None))) = [demo_bucket]"
    by (simp add: demo_parse demo_selected)
  from no_private_origin_no_provisioning [OF plain, of demo_env "[]" "''E1''"]
  have "filter (\<lambda>c. c = CreateOriginAccessIdentity \<or> is_grant c)
          (calls_of (createCloudFrontDistribution demo_env demo_inputs) []) = []"
    and "filter (\<lambda>c. c = CreateOriginAccessIdentity \<or> is_grant c)
          (calls_of (updateCloudFrontDistribution demo_env ''E1'' demo_inputs) []) = []"
    by (auto simp: filter_empty_conv)
  with inputs bucket show ?thesis by blast
qed

section \<open>Disable\<close>

text \<open>
  Claim C1, as the code has it. When the fetch returns a configuration, the disable
  operation issues the fetch and then one update request, for the same distribution id,
  with the fetched \<open>ETag\<close> as \<open>IfMatch\<close>. Its \<open>DistributionConfig\<close> carries the
  \<open>CallerReference\<close>, \<open>Comment\<close>, \<open>DefaultCacheBehavior\<close> and \<open>Origins\<close> of the fetched
  configuration unchanged and has \<open>Enabled\<close> set to false; the request is built from
  these five fields only, so \<open>Aliases\<close>, \<open>PriceClass\<close>, \<open>HttpVersion\<close> and
  \<open>CacheBehaviors\<close> are absent from it.
\<close>

theorem disable_request:
  assumes "cf_getDistributionConfig env log distributionId = Inr response"
      and "DistributionConfig response = Some fetched"
  shows "calls_of (disableCloudFrontDistribution env distributionId) log =
           [GetDistributionConfig distributionId,
            UpdateDistribution
              \<lparr>ur_Id = distributionId,
               ur_IfMatch = ETag response,
               ur_DistributionConfig =
                 fetched\<lparr>Enabled := False, Aliases := None, PriceClass := None,
                   HttpVersion := None, CacheBehaviors := None\<rparr>\<rparr>]"
  using assms by (simp add: calls_of_def disable_cases Let_def)

text \<open>The provider of the test double holds \<open>demo_config\<close> under the tag \<open>ETAG1\<close>.\<close>

theorem disable_request_witness:
  "cf_getDistributionConfig demo_env [] ''E1'' = Inr demo_response \<and>
   DistributionConfig demo_response = Some demo_config \<and>
   calls_of (disableCloudFrontDistribution demo_env ''E1'') [] =
     [GetDistributionConfig ''E1'',
      UpdateDistribution
        \<lparr>ur_Id = ''E1'',
         ur_IfMatch = Some ''ETAG1'',
         ur_DistributionConfig =
           demo_config\<lparr>Enabled := False, Aliases := None, PriceClass := None,
             HttpVersion := None, CacheBehaviors := None\<rparr>\<rparr>]"
  using disable_request [OF demo_get demo_response_sel(1), of "''E1''" "[]"]
  by (simp add: demo_get demo_response_sel)

text \<open>
  Claim C1, as stated, fails: the fetched configuration \<open>demo_config\<close> has aliases, a
  price class, an HTTP version and cache behaviors, and the configuration that the
  disable operation submits differs from it in more than \<open>Enabled\<close>.
\<close>

theorem disable_drops_fields_counterexample:
  "cf_getDistributionConfig demo_env [] ''E1'' = Inr demo_response \<and>
   DistributionConfig demo_response = Some demo_config \<and>
   map ur_DistributionConfig
     (submitted_updates (calls_of (disableCloudFrontDistribution demo_env ''E1'') [])) =
     [demo_config\<lparr>Enabled := False, Aliases := None, PriceClass := None,
        HttpVersion := None, CacheBehaviors := None\<rparr>] \<and>
   demo_config\<lparr>Enabled := False, Aliases := None, PriceClass := None,
        HttpVersion := None, CacheBehaviors := None\<rparr> \<noteq> demo_config\<lparr>Enabled := False\<rparr>"
  by (simp add: demo_get demo_response_sel calls_of_def disable_cases Let_def demo_config_def)

section \<open>Delete\<close>

lemma disable_no_delete:
  "submitted_deletes (calls_of (disableCloudFrontDistribution env i) log) = []"
  by (simp add: calls_of_def disable_cases Let_def split: sum.splits option.splits)

lemma disable_extends:
  "snd (disableCloudFrontDistribution env i log) =
     log @ calls_of (disableCloudFrontDistribution env i) log"
  by (simp add: calls_of_def disable_cases Let_def split: sum.splits option.splits)

lemma submitted_deletes_append:
  "submitted_deletes (xs @ ys) = submitted_deletes xs @ submitted_deletes ys"
  by (induction xs rule: submitted_deletes.induct) simp_all

text \<open>
  Claim C2, as the code has it. When the fetch succeeds, the delete operation issues the
  fetch and one delete request guarded by the fetched \<open>ETag\<close>. If the provider accepts it,
  the operation returns. If the provider rejects it with a code other than
  \<open>DistributionNotDisabled\<close>, that rejection propagates unchanged and nothing else is
  called. If it rejects it with the code \<open>DistributionNotDisabled\<close>, the disable operation
  is invoked and its outcome is the outcome of the delete operation: it returns (with no
  value) when the disable operation returns, and fails with the error of the disable
  operation when that fails; in both cases the delete request is the only one submitted.
  A rejection of the fetch with another code propagates unchanged as well.
\<close>

theorem delete_fallback:
  "(\<forall>res. cf_getDistributionConfig env log distributionId = Inr res \<longrightarrow>
     (let params = \<lparr>dr_Id = distributionId, dr_IfMatch = ETag res\<rparr>;
          attempted = log @ [GetDistributionConfig distributionId, DeleteDistribution params];
          answer = cf_deleteDistribution env (log @ [GetDistributionConfig distributionId]) params;
          disable = disableCloudFrontDistribution env distributionId attempted
      in (answer = Inr () \<longrightarrow>
            deleteCloudFrontDistribution env distributionId log = (Inr (), attempted))
       \<and> (\<forall>e. answer = Inl e \<and> code e \<noteq> ''DistributionNotDisabled'' \<longrightarrow>
            deleteCloudFrontDistribution env distributionId log = (Inl (AWSError e), attempted))
       \<and> (\<forall>e. answer = Inl e \<and> code e = ''DistributionNotDisabled'' \<longrightarrow>
            snd (deleteCloudFrontDistribution env distributionId log) = snd disable
          \<and> (\<forall>r. fst disable = Inr r \<longrightarrow>
                fst (deleteCloudFrontDistribution env distributionId log) = Inr ())
          \<and> (\<forall>e'. fst disable = Inl e' \<longrightarrow>
                fst (deleteCloudFrontDistribution env distributionId log) = Inl e')
          \<and> submitted_deletes (calls_of (deleteCloudFrontDistribution env distributionId) log) =
                [params])))
 \<and> (\<forall>e. cf_getDistributionConfig env log distributionId = Inl e \<and>
          code e \<noteq> ''DistributionNotDisabled'' \<longrightarrow>
       deleteCloudFrontDistribution env distributionId log =
         (Inl (AWSError e), log @ [GetDistributionConfig distributionId]))"
proof -
  let ?get = "GetDistributionConfig distributionId"
  have ok: "deleteCloudFrontDistribution env distributionId log =
      (Inr (), log @ [?get, DeleteDistribution \<lparr>dr_Id = distributionId, dr_IfMatch = ETag res\<rparr>])"
    if "cf_getDistributionConfig env log distributionId = Inr res"
       "cf_deleteDistribution env (log @ [?get])
          \<lparr>dr_Id = distributionId, dr_IfMatch = ETag res\<rparr> = Inr ()" for res
    using that by (simp add: delete_cases Let_def)
  have other: "deleteCloudFrontDistribution env distributionId log =
      (Inl (AWSError e),
       log @ [?get, DeleteDistribution \<lparr>dr_Id = distributionId, dr_IfMatch = ETag res\<rparr>])"
    if "cf_getDistributionConfig env log distributionId = Inr res"
       "cf_deleteDistribution env (log @ [?get])
          \<lparr>dr_Id = distributionId, dr_IfMatch = ETag res\<rparr> = Inl e"
       "code e \<noteq> ''DistributionNotDisabled''" for res e
    using that by (simp add: delete_cases Let_def)
  have fallback: "deleteCloudFrontDistribution env distributionId log =
      (map_sum id (\<lambda>disabled. ())
         (fst (disableCloudFrontDistribution env distributionId
            (log @ [?get, DeleteDistribution \<lparr>dr_Id = distributionId, dr_IfMatch = ETag res\<rparr>]))),
       snd (disableCloudFrontDistribution env distributionId
            (log @ [?get, DeleteDistribution \<lparr>dr_Id = distributionId, dr_IfMatch = ETag res\<rparr>])))"
    if "cf_getDistributionConfig env log distributionId = Inr res"
       "cf_deleteDistribution env (log @ [?get])
          \<lparr>dr_Id = distributionId, dr_IfMatch = ETag res\<rparr> = Inl e"
       "code e = ''DistributionNotDisabled''" for res e
    using that by (simp add: delete_cases Let_def)
  have deletes: "submitted_deletes (calls_of (deleteCloudFrontDistribution env distributionId) log) =
      [\<lparr>dr_Id = distributionId, dr_IfMatch = ETag res\<rparr>]"
    if "cf_getDistributionConfig env log distributionId = Inr res"
       "cf_deleteDistribution env (log @ [?get])
          \<lparr>dr_Id = distributionId, dr_IfMatch = ETag res\<rparr> = Inl e"
       "code e = ''DistributionNotDisabled''" for res e
  proof -
    let ?attempted = "log @ [?get, DeleteDistribution \<lparr>dr_Id = distributionId, dr_IfMatch = ETag res\<rparr>]"
    have "calls_of (deleteCloudFrontDistribution env distributionId) log =
        [?get, DeleteDistribution \<lparr>dr_Id = distributionId, dr_IfMatch = ETag res\<rparr>] @
        calls_of (disableCloudFrontDistribution env distributionId) ?attempted"
    proof -
      have "calls_of (deleteCloudFrontDistribution env distributionId) log =
          drop (length log) (snd (disableCloudFrontDistribution env distributionId ?attempted))"
        by (simp add: calls_of_def fallback [OF that])
      also have "\<dots> = drop (length log)
          (?attempted @ calls_of (disableCloudFrontDistribution env distributionId) ?attempted)"
        using disable_extends [of env distributionId ?attempted] by simp
      finally show ?thesis by simp
    qed
    then show ?thesis
      by (simp add: submitted_deletes_append disable_no_delete)
  qed
  have failed: "deleteCloudFrontDistribution env distributionId log = (Inl (AWSError e), log @ [?get])"
    if "cf_getDistributionConfig env log distributionId = Inl e"
       "code e \<noteq> ''DistributionNotDisabled''" for e
    using that by (simp add: delete_cases Let_def)
  show ?thesis
    unfolding Let_def
    by (intro conjI allI impI; (elim conjE)?)
       (simp_all add: ok other fallback deletes failed)
qed

lemma demo_enabled_get: "cf_getDistributionConfig demo_enabled_env log i = Inr demo_response"
  by (simp add: demo_enabled_env_def demo_env_def)

lemma demo_enabled_delete: "cf_deleteDistribution demo_enabled_env log req = Inl not_disabled"
  by (simp add: demo_enabled_env_def)

lemma demo_enabled_update: "cf_updateDistribution demo_enabled_env log req = Inr demo_distribution"
  by (simp add: demo_enabled_env_def demo_env_def)

lemma demo_stuck_get: "cf_getDistributionConfig demo_stuck_env log i = Inr demo_response"
  by (simp add: demo_stuck_env_def demo_enabled_env_def demo_env_def)

lemma demo_stuck_delete: "cf_deleteDistribution demo_stuck_env log req = Inl not_disabled"
  by (simp add: demo_stuck_env_def demo_enabled_env_def)

lemma demo_stuck_update: "cf_updateDistribution demo_stuck_env log req = Inl precondition_failed"
  by (simp add: demo_stuck_env_def)

lemma not_disabled_code: "code not_disabled = ''DistributionNotDisabled''"
  by (simp add: not_disabled_def)

text \<open>
  The distribution is enabled: the delete request is rejected as not disabled, the
  disable operation succeeds, and the delete operation returns after one delete request.
\<close>

theorem delete_fallback_witness:
  "cf_getDistributionConfig demo_enabled_env [] ''E1'' = Inr demo_response \<and>
   cf_deleteDistribution demo_enabled_env [GetDistributionConfig ''E1'']
     \<lparr>dr_Id = ''E1'', dr_IfMatch = Some ''ETAG1''\<rparr> = Inl not_disabled \<and>
   code not_disabled = ''DistributionNotDisabled'' \<and>
   fst (deleteCloudFrontDistribution demo_enabled_env ''E1'' []) = Inr () \<and>
   submitted_deletes (calls_of (deleteCloudFrontDistribution demo_enabled_env ''E1'') []) =
     [\<lparr>dr_Id = ''E1'', dr_IfMatch = Some ''ETAG1''\<rparr>]"
proof -
  have "\<exists>r. fst (disableCloudFrontDistribution demo_enabled_env ''E1''
      [GetDistributionConfig ''E1'',
       DeleteDistribution \<lparr>dr_Id = ''E1'', dr_IfMatch = Some ''ETAG1''\<rparr>]) = Inr r"
    by (simp add: disable_cases demo_enabled_get demo_enabled_update demo_response_sel Let_def)
  with delete_fallback [of demo_enabled_env "[]" "''E1''"] show ?thesis
    by (auto simp add: Let_def demo_enabled_get demo_enabled_delete demo_response_sel
          not_disabled_code)
qed

text \<open>
  Claim C2, as stated, fails: the delete request is rejected with the code
  \<open>DistributionNotDisabled\<close>, the disable operation is invoked and its update is rejected
  by the provider; the delete operation then fails with that rejection, it does not
  return successfully.
\<close>

theorem delete_fallback_fails_counterexample:
  "cf_getDistributionConfig demo_stuck_env [] ''E1'' = Inr demo_response \<and>
   cf_deleteDistribution demo_stuck_env [GetDistributionConfig ''E1'']
     \<lparr>dr_Id = ''E1'', dr_IfMatch = Some ''ETAG1''\<rparr> = Inl not_disabled \<and>
   code not_disabled = ''DistributionNotDisabled'' \<and>
   deleteCloudFrontDistribution demo_stuck_env ''E1'' [] =
     (Inl (AWSError precondition_failed),
      [GetDistributionConfig ''E1'',
       DeleteDistribution \<lparr>dr_Id = ''E1'', dr_IfMatch = Some ''ETAG1''\<rparr>,
       GetDistributionConfig ''E1'',
       UpdateDistribution
         \<lparr>ur_Id = ''E1'', ur_IfMatch = Some ''ETAG1'',
          ur_DistributionConfig =
            demo_config\<lparr>Enabled := False, Aliases := None, PriceClass := None,
              HttpVersion := None, CacheBehaviors := None\<rparr>\<rparr>])"
  by (simp add: delete_cases disable_cases demo_stuck_get demo_stuck_delete demo_stuck_update
        demo_response_sel not_disabled_code Let_def)

section \<open>A response without configuration\<close>

lemma delete_attempt:
  assumes "cf_getDistributionConfig env log i = Inr res"
  shows "take 2 (calls_of (deleteCloudFrontDistribution env i) log) =
           [GetDistributionConfig i, DeleteDistribution \<lparr>dr_Id = i, dr_IfMatch = ETag res\<rparr>]"
proof -
  let ?attempted = "log @ [GetDistributionConfig i,
                      DeleteDistribution \<lparr>dr_Id = i, dr_IfMatch = ETag res\<rparr>]"
  have "\<exists>cs. snd (deleteCloudFrontDistribution env i log) = ?attempted @ cs"
    using assms disable_extends [of env i ?attempted]
    by (auto simp: delete_cases Let_def split: sum.splits)
  then show ?thesis by (auto simp: calls_of_def)
qed

text \<open>
  Claim C3, as the code has it. If the response to the fetch has no
  \<open>DistributionConfig\<close>, then \<open>updateCloudFrontDistribution\<close> fails with the message
  \<open>Could not get a distribution config\<close> and has issued the fetch only: no provisioning, no
  grant, no update. The disable operation behaves in the same way. The delete operation
  does not look at the \<open>DistributionConfig\<close> of the response: after the fetch it issues
  the delete request, guarded by the fetched \<open>ETag\<close>.
\<close>

theorem missing_config:
  assumes "cf_getDistributionConfig env log distributionId = Inr response"
      and "DistributionConfig response = None"
  shows "updateCloudFrontDistribution env distributionId inputs log =
           (Inl (Error ''Could not get a distribution config''),
            log @ [GetDistributionConfig distributionId])
       \<and> disableCloudFrontDistribution env distributionId log =
           (Inl (Error ''Could not get a distribution config''),
            log @ [GetDistributionConfig distributionId])
       \<and> take 2 (calls_of (deleteCloudFrontDistribution env distributionId) log) =
           [GetDistributionConfig distributionId,
            DeleteDistribution \<lparr>dr_Id = distributionId, dr_IfMatch = ETag response\<rparr>]"
  using assms delete_attempt [OF assms(1)]
  by (simp add: update_prepare disable_cases)

lemma demo_no_config_get:
  "cf_getDistributionConfig demo_no_config_env log i =
     Inr \<lparr>DistributionConfig = None, ETag = Some ''ETAG1''\<rparr>"
  by (simp add: demo_no_config_env_def)

lemma demo_no_config_delete: "cf_deleteDistribution demo_no_config_env log req = Inr ()"
  by (simp add: demo_no_config_env_def demo_env_def)

theorem missing_config_witness:
  "cf_getDistributionConfig demo_no_config_env [] ''E1'' =
     Inr \<lparr>DistributionConfig = None, ETag = Some ''ETAG1''\<rparr> \<and>
   updateCloudFrontDistribution demo_no_config_env ''E1'' demo_private_inputs [] =
     (Inl (Error ''Could not get a distribution config''), [GetDistributionConfig ''E1'']) \<and>
   take 2 (calls_of (deleteCloudFrontDistribution demo_no_config_env ''E1'') []) =
     [GetDistributionConfig ''E1'',
      DeleteDistribution \<lparr>dr_Id = ''E1'', dr_IfMatch = Some ''ETAG1''\<rparr>]"
  using missing_config [of demo_no_config_env "[]" "''E1''"
          "\<lparr>DistributionConfig = None, ETag = Some ''ETAG1''\<rparr>" demo_private_inputs]
  by (simp add: demo_no_config_get)

text \<open>
  Claim C3, as stated, fails for the delete operation: the response has no
  \<open>DistributionConfig\<close>, and the operation issues the delete request and returns
  successfully.
\<close>

theorem delete_without_config_counterexample:
  "cf_getDistributionConfig demo_no_config_env [] ''E1'' =
     Inr \<lparr>DistributionConfig = None, ETag = Some ''ETAG1''\<rparr> \<and>
   deleteCloudFrontDistribution demo_no_config_env ''E1'' [] =
     (Inr (),
      [GetDistributionConfig ''E1'',
       DeleteDistribution \<lparr>dr_Id = ''E1'', dr_IfMatch = Some ''ETAG1''\<rparr>])"
  by (simp add: delete_cases demo_no_config_get demo_no_config_delete Let_def)

section \<open>The calls of create and update\<close>

lemma prepare_calls:
  "calls_of (prepare env inputs) log =
     (if servePrivateContentEnabled inputs
      then CreateOriginAccessIdentity #
        (case createOriginAccessIdentity env log of
           Inl e \<Rightarrow> []
         | Inr identity \<Rightarrow>
             if s3CanonicalUserId identity = [] then []
             else grants_for
                    (fst (parseInputOrigins env (origins inputs)
                            (Some (originAccessIdentityId identity))))
                    (s3CanonicalUserId identity))
      else [])"
  by (simp add: calls_of_def prepare_plain_calls prepare_private_calls)

lemma create_calls:
  "calls_of (createCloudFrontDistribution env inputs) log =
     calls_of (prepare env inputs) log @
     (case prepare env inputs log of
        (Inl e, log') \<Rightarrow> []
      | (Inr (origins', behaviors', targetOriginId), log') \<Rightarrow>
          [CreateDistribution
             \<lparr>cr_DistributionConfig =
                \<lparr>CallerReference = String (Date_now env log'),
                 Comment = comment inputs,
                 Aliases = Some \<lparr>al_Quantity = 0, al_Items = []\<rparr>,
                 Origins = origins',
                 PriceClass = Some ''PriceClass_All'',
                 Enabled = enabled inputs,
                 HttpVersion = Some ''http2'',
                 DefaultCacheBehavior =
                   getDefaultCacheBehavior env targetOriginId (defaults inputs),
                 CacheBehaviors = behaviors'\<rparr>\<rparr>])"
proof -
  obtain r cs where "prepare env inputs log = (r, log @ cs)"
    using prepare_extends [of env inputs log] by (metis prod.collapse)
  then show ?thesis
    by (auto simp: calls_of_def create_prepare Let_def split: sum.splits)
qed

lemma update_calls:
  "calls_of (updateCloudFrontDistribution env i inputs) log =
     GetDistributionConfig i #
     (case cf_getDistributionConfig env log i of
        Inl e \<Rightarrow> []
      | Inr response \<Rightarrow>
          (case DistributionConfig response of
             None \<Rightarrow> []
           | Some fetched \<Rightarrow>
               calls_of (prepare env inputs) (log @ [GetDistributionConfig i]) @
               (case prepare env inputs (log @ [GetDistributionConfig i]) of
                  (Inl e, log') \<Rightarrow> []
                | (Inr (origins', behaviors', targetOriginId), log') \<Rightarrow>
                    [UpdateDistribution
                       \<lparr>ur_Id = i,
                        ur_IfMatch = ETag response,
                        ur_DistributionConfig =
                          \<lparr>CallerReference = CallerReference fetched,
                           Comment = comment inputs,
                           Aliases = None,
                           Origins = origins',
                           PriceClass = None,
                           Enabled = enabled inputs,
                           HttpVersion = None,
                           DefaultCacheBehavior =
                             getDefaultCacheBehavior env targetOriginId (defaults inputs),
                           CacheBehaviors = behaviors'\<rparr>\<rparr>])))"
proof (cases "cf_getDistributionConfig env log i")
  case (Inl e)
  then show ?thesis by (simp add: calls_of_def update_prepare)
next
  case (Inr response)
  show ?thesis
  proof (cases "DistributionConfig response")
    case None
    with Inr show ?thesis by (simp add: calls_of_def update_prepare)
  next
    case (Some fetched)
    obtain r cs where "prepare env inputs (log @ [GetDistributionConfig i]) =
        (r, (log @ [GetDistributionConfig i]) @ cs)"
      using prepare_extends [of env inputs "log @ [GetDistributionConfig i]"]
      by (metis prod.collapse)
    with Inr Some show ?thesis
      by (auto simp: calls_of_def update_prepare Let_def split: sum.splits)
  qed
qed

lemma grants_are_grants: "c \<in> set (grants_for origins' userId) \<Longrightarrow> is_grant c"
  by (auto simp: grants_for_def)

lemma submitted_creates_append:
  "submitted_creates (xs @ ys) = submitted_creates xs @ submitted_creates ys"
  by (induction xs rule: submitted_creates.induct) simp_all

lemma submitted_updates_append:
  "submitted_updates (xs @ ys) = submitted_updates xs @ submitted_updates ys"
  by (induction xs rule: submitted_updates.induct) simp_all

lemma submitted_none:
  assumes "\<forall>c \<in> set cs. c = CreateOriginAccessIdentity \<or> is_grant c"
  shows "submitted_creates cs = []" "submitted_updates cs = []"
  using assms by (induction cs; auto elim: is_grant.elims)+

lemma prepare_calls_kind:
  "\<forall>c \<in> set (calls_of (prepare env inputs) log). c = CreateOriginAccessIdentity \<or> is_grant c"
  by (auto simp: prepare_calls grants_are_grants split: sum.splits if_splits)

lemma create_submitted:
  "submitted_creates (calls_of (createCloudFrontDistribution env inputs) log) =
     (case prepare env inputs log of
        (Inl e, log') \<Rightarrow> []
      | (Inr (origins', behaviors', targetOriginId), log') \<Rightarrow>
          [\<lparr>cr_DistributionConfig =
              \<lparr>CallerReference = String (Date_now env log'),
               Comment = comment inputs,
               Aliases = Some \<lparr>al_Quantity = 0, al_Items = []\<rparr>,
               Origins = origins',
               PriceClass = Some ''PriceClass_All'',
               Enabled = enabled inputs,
               HttpVersion = Some ''http2'',
               DefaultCacheBehavior =
                 getDefaultCacheBehavior env targetOriginId (defaults inputs),
               CacheBehaviors = behaviors'\<rparr>\<rparr>])"
  by (simp add: create_calls submitted_creates_append submitted_none [OF prepare_calls_kind]
        split: prod.splits sum.splits)

lemma update_submitted:
  "submitted_updates (calls_of (updateCloudFrontDistribution env i inputs) log) =
     (case cf_getDistributionConfig env log i of
        Inl e \<Rightarrow> []
      | Inr response \<Rightarrow>
          (case DistributionConfig response of
             None \<Rightarrow> []
           | Some fetched \<Rightarrow>
               (case prepare env inputs (log @ [GetDistributionConfig i]) of
                  (Inl e, log') \<Rightarrow> []
                | (Inr (origins', behaviors', targetOriginId), log') \<Rightarrow>
                    [\<lparr>ur_Id = i,
                      ur_IfMatch = ETag response,
                      ur_DistributionConfig =
                        \<lparr>CallerReference = CallerReference fetched,
                         Comment = comment inputs,
                         Aliases = None,
                         Origins = origins',
                         PriceClass = None,
                         Enabled = enabled inputs,
                         HttpVersion = None,
                         DefaultCacheBehavior =
                           getDefaultCacheBehavior env targetOriginId (defaults inputs),
                         CacheBehaviors = behaviors'\<rparr>\<rparr>])))"
  by (simp add: update_calls submitted_updates_append submitted_none [OF prepare_calls_kind]
        split: prod.splits sum.splits option.splits)

subsection \<open>When nothing fails before the request\<close>

lemma prepare_provisioned:
  assumes "provisioned env inputs log oai"
  shows "fst (prepare env inputs log) =
     (case Items (fst (parseInputOrigins env (origins inputs) oai)) of
        [] \<Rightarrow> Inl (TypeError ''Cannot read property 'Id' of undefined'')
      | origin # rest \<Rightarrow>
          Inr (fst (parseInputOrigins env (origins inputs) oai),
               snd (parseInputOrigins env (origins inputs) oai), origin_Id origin))"
proof (cases "servePrivateContentEnabled inputs")
  case False
  with assms show ?thesis
    by (simp add: provisioned_def prepare_plain split: prod.splits list.splits)
next
  case True
  with assms obtain identity
    where "createOriginAccessIdentity env log = Inr identity"
      and "oai = Some (originAccessIdentityId identity)"
      and "s3CanonicalUserId identity = [] \<or>
           (\<exists>granted. fst (updateBucketsPolicies env
                              (fst (parseInputOrigins env (origins inputs) oai))
                              (s3CanonicalUserId identity)
                              (log @ [CreateOriginAccessIdentity])) = Inr granted)"
    by (auto simp: provisioned_def split: sum.splits)
  with True show ?thesis
    by (auto simp: prepare_private Let_def split: prod.splits list.splits)
qed

lemma create_provisioned:
  assumes "provisioned env inputs log oai"
    and "Items (fst (parseInputOrigins env (origins inputs) oai)) \<noteq> []"
  shows "\<exists>req. submitted_creates (calls_of (createCloudFrontDistribution env inputs) log) = [req] \<and>
           Origins (cr_DistributionConfig req) = fst (parseInputOrigins env (origins inputs) oai) \<and>
           CacheBehaviors (cr_DistributionConfig req) =
             snd (parseInputOrigins env (origins inputs) oai) \<and>
           DefaultCacheBehavior (cr_DistributionConfig req) =
             getDefaultCacheBehavior env
               (origin_Id (Items (fst (parseInputOrigins env (origins inputs) oai)) ! 0))
               (defaults inputs)"
proof -
  obtain r log' where p: "prepare env inputs log = (r, log')"
    by fastforce
  with prepare_provisioned [OF assms(1)] assms(2)
  have "r = Inr (fst (parseInputOrigins env (origins inputs) oai),
                 snd (parseInputOrigins env (origins inputs) oai),
                 origin_Id (Items (fst (parseInputOrigins env (origins inputs) oai)) ! 0))"
    by (cases "Items (fst (parseInputOrigins env (origins inputs) oai))") simp_all
  with p show ?thesis
    by (simp add: create_submitted)
qed

lemma update_provisioned:
  assumes "cf_getDistributionConfig env log i = Inr response"
    and "DistributionConfig response = Some fetched"
    and "provisioned env inputs (log @ [GetDistributionConfig i]) oai"
    and "Items (fst (parseInputOrigins env (origins inputs) oai)) \<noteq> []"
  shows "submitted_updates (calls_of (updateCloudFrontDistribution env i inputs) log) =
     [\<lparr>ur_Id = i,
       ur_IfMatch = ETag response,
       ur_DistributionConfig =
         \<lparr>CallerReference = CallerReference fetched,
          Comment = comment inputs,
          Aliases = None,
          Origins = fst (parseInputOrigins env (origins inputs) oai),
          PriceClass = None,
          Enabled = enabled inputs,
          HttpVersion = None,
          DefaultCacheBehavior =
            getDefaultCacheBehavior env
              (origin_Id (Items (fst (parseInputOrigins env (origins inputs) oai)) ! 0))
              (defaults inputs),
          CacheBehaviors = snd (parseInputOrigins env (origins inputs) oai)\<rparr>\<rparr>]"
proof -
  obtain r log' where p: "prepare env inputs (log @ [GetDistributionConfig i]) = (r, log')"
    by fastforce
  with prepare_provisioned [OF assms(3)] assms(4)
  have "r = Inr (fst (parseInputOrigins env (origins inputs) oai),
                 snd (parseInputOrigins env (origins inputs) oai),
                 origin_Id (Items (fst (parseInputOrigins env (origins inputs) oai)) ! 0))"
    by (cases "Items (fst (parseInputOrigins env (origins inputs) oai))") simp_all
  with p assms(1,2) show ?thesis
    by (simp add: update_submitted)
qed

lemma create_unguarded:
  assumes "provisioned env inputs log oai"
    and "Items (fst (parseInputOrigins env (origins inputs) oai)) = []"
  shows "fst (createCloudFrontDistribution env inputs log) =
           Inl (TypeError ''Cannot read property 'Id' of undefined'')"
    and "submitted_creates (calls_of (createCloudFrontDistribution env inputs) log) = []"
proof -
  from prepare_provisioned [OF assms(1)] assms(2)
  have "fst (prepare env inputs log) = Inl (TypeError ''Cannot read property 'Id' of undefined'')"
    by simp
  then show "fst (createCloudFrontDistribution env inputs log) =
           Inl (TypeError ''Cannot read property 'Id' of undefined'')"
    and "submitted_creates (calls_of (createCloudFrontDistribution env inputs) log) = []"
    by (cases "prepare env inputs log"; simp add: create_prepare create_submitted)+
qed

lemma update_unguarded:
  assumes "cf_getDistributionConfig env log i = Inr response"
    and "DistributionConfig response = Some fetched"
    and "provisioned env inputs (log @ [GetDistributionConfig i]) oai"
    and "Items (fst (parseInputOrigins env (origins inputs) oai)) = []"
  shows "fst (updateCloudFrontDistribution env i inputs log) =
           Inl (TypeError ''Cannot read property 'Id' of undefined'')"
    and "submitted_updates (calls_of (updateCloudFrontDistribution env i inputs) log) = []"
proof -
  from prepare_provisioned [OF assms(3)] assms(4)
  have "fst (prepare env inputs (log @ [GetDistributionConfig i])) =
      Inl (TypeError ''Cannot read property 'Id' of undefined'')"
    by simp
  with assms(1,2) show "fst (updateCloudFrontDistribution env i inputs log) =
           Inl (TypeError ''Cannot read property 'Id' of undefined'')"
    and "submitted_updates (calls_of (updateCloudFrontDistribution env i inputs) log) = []"
    by (cases "prepare env inputs (log @ [GetDistributionConfig i])";
        simp add: update_prepare update_submitted)+
qed

section \<open>The first parsed origin\<close>

lemma spec_Items:
  "Items (fst (parseInputOrigins_spec P inputOrigins oai)) =
     map (\<lambda>(i, origin). parse_origin P oai i origin) (enumerate 0 inputOrigins)"
  by (simp add: parseInputOrigins_spec_def Let_def)

lemma spec_TargetOriginId:
  "TargetOriginId (getDefaultCacheBehavior_spec hard originId options) = originId"
  by (simp add: getDefaultCacheBehavior_spec_def Let_def)

lemma spec_request_targets:
  assumes "parseInputOrigins env = parseInputOrigins_spec P"
      and "getDefaultCacheBehavior env = getDefaultCacheBehavior_spec hard"
      and "origins inputs \<noteq> []"
  shows "(\<forall>oai. 1 \<le> length (Items (fst (parseInputOrigins env (origins inputs) oai))))
       \<and> (\<forall>req \<in> set (submitted_creates
                         (calls_of (createCloudFrontDistribution env inputs) log)).
            (\<exists>oai. Origins (cr_DistributionConfig req) =
                     fst (parseInputOrigins env (origins inputs) oai)) \<and>
            TargetOriginId (DefaultCacheBehavior (cr_DistributionConfig req)) =
              origin_Id (Items (Origins (cr_DistributionConfig req)) ! 0))
       \<and> (\<forall>req \<in> set (submitted_updates
                         (calls_of (updateCloudFrontDistribution env distributionId inputs) log)).
            (\<exists>oai. Origins (ur_DistributionConfig req) =
                     fst (parseInputOrigins env (origins inputs) oai)) \<and>
            TargetOriginId (DefaultCacheBehavior (ur_DistributionConfig req)) =
              origin_Id (Items (Origins (ur_DistributionConfig req)) ! 0))"
proof -
  have parsed: "1 \<le> length (Items (fst (parseInputOrigins env (origins inputs) oai)))" for oai
    using assms(3) by (cases "origins inputs") (simp_all add: assms(1) spec_Items)
  have created:
    "(\<exists>oai. Origins (cr_DistributionConfig req) =
             fst (parseInputOrigins env (origins inputs) oai)) \<and>
     TargetOriginId (DefaultCacheBehavior (cr_DistributionConfig req)) =
       origin_Id (Items (Origins (cr_DistributionConfig req)) ! 0)"
    if "req \<in> set (submitted_creates (calls_of (createCloudFrontDistribution env inputs) log))"
    for req
  proof -
    note that
    moreover obtain r log' where "prepare env inputs log = (r, log')"
      by fastforce
    ultimately obtain origins' behaviors' targetOriginId
      where p: "prepare env inputs log = (Inr (origins', behaviors', targetOriginId), log')"
        and req: "Origins (cr_DistributionConfig req) = origins'"
                 "DefaultCacheBehavior (cr_DistributionConfig req) =
                    getDefaultCacheBehavior env targetOriginId (defaults inputs)"
      by (cases r) (auto simp: create_submitted)
    from p have "fst (prepare env inputs log) = Inr (origins', behaviors', targetOriginId)"
      by simp
    from prepare_result [OF this] obtain oai
      where "parseInputOrigins env (origins inputs) oai = (origins', behaviors')"
        and "targetOriginId = origin_Id (Items origins' ! 0)"
      by blast
    with req show ?thesis
      by (metis assms(2) fst_conv spec_TargetOriginId)
  qed
  have updated:
    "(\<exists>oai. Origins (ur_DistributionConfig req) =
             fst (parseInputOrigins env (origins inputs) oai)) \<and>
     TargetOriginId (DefaultCacheBehavior (ur_DistributionConfig req)) =
       origin_Id (Items (Origins (ur_DistributionConfig req)) ! 0)"
    if "req \<in> set (submitted_updates
                     (calls_of (updateCloudFrontDistribution env distributionId inputs) log))"
    for req
  proof -
    note that
    moreover obtain r log' where
      "prepare env inputs (log @ [GetDistributionConfig distributionId]) = (r, log')"
      by fastforce
    ultimately obtain origins' behaviors' targetOriginId
      where p: "prepare env inputs (log @ [GetDistributionConfig distributionId]) =
                  (Inr (origins', behaviors', targetOriginId), log')"
        and req: "Origins (ur_DistributionConfig req) = origins'"
                 "DefaultCacheBehavior (ur_DistributionConfig req) =
                    getDefaultCacheBehavior env targetOriginId (defaults inputs)"
      by (cases r) (auto simp: update_submitted split: sum.splits option.splits)
    from p have "fst (prepare env inputs (log @ [GetDistributionConfig distributionId])) =
        Inr (origins', behaviors', targetOriginId)"
      by simp
    from prepare_result [OF this] obtain oai
      where "parseInputOrigins env (origins inputs) oai = (origins', behaviors')"
        and "targetOriginId = origin_Id (Items origins' ! 0)"
      by blast
    with req show ?thesis
      by (metis assms(2) fst_conv spec_TargetOriginId)
  qed
  from parsed created updated show ?thesis by blast
qed

text \<open>
  Claim C5, with the origin parser and the default cache behavior builder as the
  specification describes them. For a non-empty list of input origins the parsed
  \<open>Origins\<close> has at least one item, whatever the access identity; and in every create
  request and in every update request that is submitted, \<open>Origins\<close> is the parsed
  collection and the \<open>TargetOriginId\<close> of the \<open>DefaultCacheBehavior\<close> is the \<open>Id\<close> of
  \<open>Origins.Items[0]\<close>. Such a request is submitted: when nothing fails before it (and, for
  update, the fetch returned a configuration), exactly one request is submitted, and it
  carries the parsed \<open>Origins\<close> and that \<open>TargetOriginId\<close>.
\<close>

theorem default_behavior_targets_first_origin:
  assumes "parseInputOrigins env = parseInputOrigins_spec P"
      and "getDefaultCacheBehavior env = getDefaultCacheBehavior_spec hard"
      and "origins inputs \<noteq> []"
  shows "(\<forall>oai. 1 \<le> length (Items (fst (parseInputOrigins env (origins inputs) oai))))
       \<and> (\<forall>req \<in> set (submitted_creates
                         (calls_of (createCloudFrontDistribution env inputs) log)).
            (\<exists>oai. Origins (cr_DistributionConfig req) =
                     fst (parseInputOrigins env (origins inputs) oai)) \<and>
            TargetOriginId (DefaultCacheBehavior (cr_DistributionConfig req)) =
              origin_Id (Items (Origins (cr_DistributionConfig req)) ! 0))
       \<and> (\<forall>req \<in> set (submitted_updates
                         (calls_of (updateCloudFrontDistribution env distributionId inputs) log)).
            (\<exists>oai. Origins (ur_DistributionConfig req) =
                     fst (parseInputOrigins env (origins inputs) oai)) \<and>
            TargetOriginId (DefaultCacheBehavior (ur_DistributionConfig req)) =
              origin_Id (Items (Origins (ur_DistributionConfig req)) ! 0))
       \<and> (\<forall>oai. provisioned env inputs log oai \<longrightarrow>
            (\<exists>req. submitted_creates
                     (calls_of (createCloudFrontDistribution env inputs) log) = [req] \<and>
               Origins (cr_DistributionConfig req) =
                 fst (parseInputOrigins env (origins inputs) oai) \<and>
               TargetOriginId (DefaultCacheBehavior (cr_DistributionConfig req)) =
                 origin_Id (Items (Origins (cr_DistributionConfig req)) ! 0)))
       \<and> (\<forall>oai response fetched.
            cf_getDistributionConfig env log distributionId = Inr response \<and>
            DistributionConfig response = Some fetched \<and>
            provisioned env inputs (log @ [GetDistributionConfig distributionId]) oai \<longrightarrow>
            (\<exists>req. submitted_updates
                     (calls_of (updateCloudFrontDistribution env distributionId inputs) log) =
                     [req] \<and>
               Origins (ur_DistributionConfig req) =
                 fst (parseInputOrigins env (origins inputs) oai) \<and>
               TargetOriginId (DefaultCacheBehavior (ur_DistributionConfig req)) =
                 origin_Id (Items (Origins (ur_DistributionConfig req)) ! 0)))"
proof -
  note submitted = spec_request_targets [OF assms, of log distributionId]
  have nonempty: "Items (fst (parseInputOrigins env (origins inputs) oai)) \<noteq> []" for oai
    using submitted [THEN conjunct1, rule_format, of oai] by auto
  have created:
    "\<exists>req. submitted_creates (calls_of (createCloudFrontDistribution env inputs) log) = [req] \<and>
       Origins (cr_DistributionConfig req) = fst (parseInputOrigins env (origins inputs) oai) \<and>
       TargetOriginId (DefaultCacheBehavior (cr_DistributionConfig req)) =
         origin_Id (Items (Origins (cr_DistributionConfig req)) ! 0)"
    if "provisioned env inputs log oai" for oai
    using create_provisioned [OF that nonempty]
    by (auto simp: assms(2) spec_TargetOriginId)
  have updated:
    "\<exists>req. submitted_updates
             (calls_of (updateCloudFrontDistribution env distributionId inputs) log) = [req] \<and>
       Origins (ur_DistributionConfig req) = fst (parseInputOrigins env (origins inputs) oai) \<and>
       TargetOriginId (DefaultCacheBehavior (ur_DistributionConfig req)) =
         origin_Id (Items (Origins (ur_DistributionConfig req)) ! 0)"
    if "cf_getDistributionConfig env log distributionId = Inr response"
       "DistributionConfig response = Some fetched"
       "provisioned env inputs (log @ [GetDistributionConfig distributionId]) oai"
    for oai response fetched
    using update_provisioned [OF that nonempty]
    by (simp add: assms(2) spec_TargetOriginId)
  from submitted created updated show ?thesis by blast
qed

lemma demo_plain:
  "\<not> servePrivateContentEnabled demo_inputs"
  "\<not> servePrivateContentEnabled (demo_inputs\<lparr>enabled := b\<rparr>)"
  by (simp_all add: servePrivateContentEnabled_def demo_inputs_def)

lemma demo_inputs_sel:
  "comment demo_inputs = ''x''" "enabled demo_inputs = True" "defaults demo_inputs = None"
  by (simp_all add: demo_inputs_def)

lemma demo_prepare:
  "prepare demo_env demo_inputs log =
     (Inr (\<lparr>Quantity = 2, Items = [demo_bucket, demo_api]\<rparr>, Some demo_behaviors,
           ''origin-0-my-bucket''), log)"
  by (simp add: prepare_plain demo_plain demo_parse demo_Ids)

lemma demo_create:
  "submitted_creates (calls_of (createCloudFrontDistribution demo_env demo_inputs) log) =
     [\<lparr>cr_DistributionConfig = demo_config\<rparr>]"
  by (simp add: create_submitted demo_prepare demo_now demo_default demo_inputs_sel demo_config_def)

lemma demo_env_sel:
  "parseInputOrigins demo_env = parseInputOrigins_spec demo_parameters"
  "getDefaultCacheBehavior demo_env = getDefaultCacheBehavior_spec demo_hard"
  by (simp_all add: demo_env_def)

text \<open>
  The test double parses and builds as the specification describes; for \<open>demo_inputs\<close> the
  create request carries \<open>demo_config\<close>, and the update request carries the two parsed
  origins and targets the first.
\<close>

theorem default_behavior_targets_first_origin_witness:
  "origins demo_inputs \<noteq> [] \<and>
   submitted_creates (calls_of (createCloudFrontDistribution demo_env demo_inputs) []) =
     [\<lparr>cr_DistributionConfig = demo_config\<rparr>] \<and>
   TargetOriginId (DefaultCacheBehavior demo_config) = origin_Id (Items (Origins demo_config) ! 0) \<and>
   map (\<lambda>req. (TargetOriginId (DefaultCacheBehavior (ur_DistributionConfig req)),
               Items (Origins (ur_DistributionConfig req))))
     (submitted_updates (calls_of (updateCloudFrontDistribution demo_env ''E1'' demo_inputs) [])) =
     [(''origin-0-my-bucket'', [demo_bucket, demo_api])]"
proof -
  have nonempty: "origins demo_inputs \<noteq> []"
    by (simp add: demo_inputs_def)
  note run = default_behavior_targets_first_origin [OF demo_env_sel nonempty, of "[]" "''E1''"]
  have created: "TargetOriginId (DefaultCacheBehavior demo_config) =
      origin_Id (Items (Origins demo_config) ! 0)"
    using run [THEN conjunct2, THEN conjunct1] by (simp add: demo_create)
  have "provisioned demo_env demo_inputs ([] @ [GetDistributionConfig ''E1'']) None"
    by (simp add: provisioned_def demo_plain)
  with run [THEN conjunct2, THEN conjunct2, THEN conjunct2, THEN conjunct2, rule_format,
            of demo_response demo_config None]
  obtain req
    where "submitted_updates
             (calls_of (updateCloudFrontDistribution demo_env ''E1'' demo_inputs) []) = [req]"
      and "Origins (ur_DistributionConfig req) =
             fst (parseInputOrigins demo_env (origins demo_inputs) None)"
      and "TargetOriginId (DefaultCacheBehavior (ur_DistributionConfig req)) =
             origin_Id (Items (Origins (ur_DistributionConfig req)) ! 0)"
    using demo_get demo_response_sel by blast
  then have updated:
    "map (\<lambda>req. (TargetOriginId (DefaultCacheBehavior (ur_DistributionConfig req)),
                 Items (Origins (ur_DistributionConfig req))))
       (submitted_updates (calls_of (updateCloudFrontDistribution demo_env ''E1'' demo_inputs) [])) =
       [(''origin-0-my-bucket'', [demo_bucket, demo_api])]"
    by (simp add: demo_parse demo_Ids)
  from nonempty demo_create created updated show ?thesis by simp
qed

section \<open>The read of the first parsed origin\<close>

lemma create_error:
  assumes "fst (createCloudFrontDistribution env inputs log) = Inl e"
  shows "fst (prepare env inputs log) = Inl e \<or> (\<exists>a. e = AWSError a)"
  using assms
  by (cases "prepare env inputs log")
     (auto simp: create_prepare Let_def map_sum_def split: prod.splits sum.splits)

lemma update_error:
  assumes "fst (updateCloudFrontDistribution env i inputs log) = Inl e"
  shows "fst (prepare env inputs (log @ [GetDistributionConfig i])) = Inl e \<or>
         (\<exists>a. e = AWSError a) \<or> e = Error ''Could not get a distribution config''"
  using assms
  by (cases "prepare env inputs (log @ [GetDistributionConfig i])")
     (auto simp: update_prepare Let_def map_sum_def split: prod.splits sum.splits option.splits)

lemma create_prepare_failed:
  assumes "fst (prepare env inputs log) = Inl e"
  shows "fst (createCloudFrontDistribution env inputs log) = Inl e"
    and "submitted_creates (calls_of (createCloudFrontDistribution env inputs) log) = []"
  using assms
  by (cases "prepare env inputs log"; simp add: create_prepare create_submitted)+

lemma update_prepare_failed:
  assumes "fst (prepare env inputs (log @ [GetDistributionConfig i])) = Inl e"
  shows "\<exists>e'. fst (updateCloudFrontDistribution env i inputs log) = Inl e'"
    and "submitted_updates (calls_of (updateCloudFrontDistribution env i inputs) log) = []"
  using assms
  by (cases "prepare env inputs (log @ [GetDistributionConfig i])";
      simp add: update_prepare update_submitted split: sum.splits option.splits)+

lemma first_origin_cases:
  "((\<forall>oai. Items (fst (parseInputOrigins env (origins inputs) oai)) \<noteq> []) \<longrightarrow>
      (\<forall>m. fst (createCloudFrontDistribution env inputs log) \<noteq> Inl (TypeError m)) \<and>
      (\<forall>m. fst (updateCloudFrontDistribution env distributionId inputs log) \<noteq> Inl (TypeError m)))
 \<and> ((\<forall>oai. Items (fst (parseInputOrigins env (origins inputs) oai)) = []) \<longrightarrow>
      (\<exists>e. fst (createCloudFrontDistribution env inputs log) = Inl e \<and>
           (e = TypeError ''Cannot read property 'Id' of undefined'' \<or> (\<exists>a. e = AWSError a))) \<and>
      (\<not> servePrivateContentEnabled inputs \<longrightarrow>
         fst (createCloudFrontDistribution env inputs log) =
           Inl (TypeError ''Cannot read property 'Id' of undefined'')) \<and>
      submitted_creates (calls_of (createCloudFrontDistribution env inputs) log) = [] \<and>
      (\<exists>e. fst (updateCloudFrontDistribution env distributionId inputs log) = Inl e) \<and>
      submitted_updates
        (calls_of (updateCloudFrontDistribution env distributionId inputs) log) = [])"
proof (intro conjI impI)
  assume bounds: "\<forall>oai. Items (fst (parseInputOrigins env (origins inputs) oai)) \<noteq> []"
  show "\<forall>m. fst (createCloudFrontDistribution env inputs log) \<noteq> Inl (TypeError m)"
    using create_error [of env inputs log] prepare_in_bounds [OF bounds, of log]
    by auto
  show "\<forall>m. fst (updateCloudFrontDistribution env distributionId inputs log) \<noteq> Inl (TypeError m)"
    using update_error [of env distributionId inputs log]
      prepare_in_bounds [OF bounds, of "log @ [GetDistributionConfig distributionId]"]
    by auto
next
  assume empty: "\<forall>oai. Items (fst (parseInputOrigins env (origins inputs) oai)) = []"
  from prepare_out_of_bounds [OF empty, of log] obtain e
    where e: "fst (prepare env inputs log) = Inl e"
      "e = TypeError ''Cannot read property 'Id' of undefined'' \<or> (\<exists>a. e = AWSError a)"
    by blast
  from prepare_out_of_bounds [OF empty, of "log @ [GetDistributionConfig distributionId]"]
  obtain e' where e': "fst (prepare env inputs (log @ [GetDistributionConfig distributionId])) = Inl e'"
    by blast
  show "\<exists>e. fst (createCloudFrontDistribution env inputs log) = Inl e \<and>
           (e = TypeError ''Cannot read property 'Id' of undefined'' \<or> (\<exists>a. e = AWSError a))"
    using create_prepare_failed(1) [OF e(1)] e(2) by blast
  show "submitted_creates (calls_of (createCloudFrontDistribution env inputs) log) = []"
    by (rule create_prepare_failed(2) [OF e(1)])
  show "\<exists>e. fst (updateCloudFrontDistribution env distributionId inputs log) = Inl e"
    by (rule update_prepare_failed(1) [OF e'])
  show "submitted_updates
      (calls_of (updateCloudFrontDistribution env distributionId inputs) log) = []"
    by (rule update_prepare_failed(2) [OF e'])
  show "fst (createCloudFrontDistribution env inputs log) =
      Inl (TypeError ''Cannot read property 'Id' of undefined'')"
    if "\<not> servePrivateContentEnabled inputs"
    using that empty [rule_format, of None]
    by (auto simp: create_prepare prepare_plain split: prod.splits list.splits)
qed


text \<open>
  Claim C8. If \<open>parseInputOrigins\<close> returns a non-empty \<open>Origins.Items\<close> for the input
  origins, the read of \<open>Origins.Items[0].Id\<close> in create and in update is in bounds: neither
  operation fails with a \<open>TypeError\<close>, and when nothing fails before the read, the one
  request that is submitted has the default cache behavior built for the \<open>Id\<close> of
  \<open>Origins.Items[0]\<close>. There is no check of the length: if \<open>parseInputOrigins\<close> returns an
  empty \<open>Origins.Items\<close>, neither operation ever returns a result or submits its request,
  and when nothing fails before the read (and, for update, the fetch returned a
  configuration) the operation fails with the \<open>TypeError\<close> of that read.
\<close>

theorem first_origin_in_bounds:
  "((\<forall>oai. Items (fst (parseInputOrigins env (origins inputs) oai)) \<noteq> []) \<longrightarrow>
      (\<forall>m. fst (createCloudFrontDistribution env inputs log) \<noteq> Inl (TypeError m)) \<and>
      (\<forall>m. fst (updateCloudFrontDistribution env distributionId inputs log) \<noteq> Inl (TypeError m)))
 \<and> ((\<forall>oai. Items (fst (parseInputOrigins env (origins inputs) oai)) = []) \<longrightarrow>
      (\<exists>e. fst (createCloudFrontDistribution env inputs log) = Inl e \<and>
           (e = TypeError ''Cannot read property 'Id' of undefined'' \<or> (\<exists>a. e = AWSError a))) \<and>
      (\<not> servePrivateContentEnabled inputs \<longrightarrow>
         fst (createCloudFrontDistribution env inputs log) =
           Inl (TypeError ''Cannot read property 'Id' of undefined'')) \<and>
      submitted_creates (calls_of (createCloudFrontDistribution env inputs) log) = [] \<and>
      (\<exists>e. fst (updateCloudFrontDistribution env distributionId inputs log) = Inl e) \<and>
      submitted_updates
        (calls_of (updateCloudFrontDistribution env distributionId inputs) log) = [])
 \<and> (\<forall>oai. provisioned env inputs log oai \<and>
           Items (fst (parseInputOrigins env (origins inputs) oai)) = [] \<longrightarrow>
      fst (createCloudFrontDistribution env inputs log) =
        Inl (TypeError ''Cannot read property 'Id' of undefined''))
 \<and> (\<forall>oai response fetched.
        cf_getDistributionConfig env log distributionId = Inr response \<and>
        DistributionConfig response = Some fetched \<and>
        provisioned env inputs (log @ [GetDistributionConfig distributionId]) oai \<and>
        Items (fst (parseInputOrigins env (origins inputs) oai)) = [] \<longrightarrow>
      fst (updateCloudFrontDistribution env distributionId inputs log) =
        Inl (TypeError ''Cannot read property 'Id' of undefined''))
 \<and> (\<forall>oai. provisioned env inputs log oai \<and>
           Items (fst (parseInputOrigins env (origins inputs) oai)) \<noteq> [] \<longrightarrow>
      (\<exists>req. submitted_creates (calls_of (createCloudFrontDistribution env inputs) log) = [req] \<and>
         DefaultCacheBehavior (cr_DistributionConfig req) =
           getDefaultCacheBehavior env
             (origin_Id (Items (fst (parseInputOrigins env (origins inputs) oai)) ! 0))
             (defaults inputs)))
 \<and> (\<forall>oai response fetched.
        cf_getDistributionConfig env log distributionId = Inr response \<and>
        DistributionConfig response = Some fetched \<and>
        provisioned env inputs (log @ [GetDistributionConfig distributionId]) oai \<and>
        Items (fst (parseInputOrigins env (origins inputs) oai)) \<noteq> [] \<longrightarrow>
      (\<exists>req. submitted_updates
               (calls_of (updateCloudFrontDistribution env distributionId inputs) log) = [req] \<and>
         DefaultCacheBehavior (ur_DistributionConfig req) =
           getDefaultCacheBehavior env
             (origin_Id (Items (fst (parseInputOrigins env (origins inputs) oai)) ! 0))
             (defaults inputs)))"
proof -
  note cases = first_origin_cases [of env inputs log distributionId]
  have created_empty:
    "fst (createCloudFrontDistribution env inputs log) = Inl (TypeError ''Cannot read property 'Id' of undefined'')"
    if "provisioned env inputs log oai \<and>
        Items (fst (parseInputOrigins env (origins inputs) oai)) = []" for oai
    using that create_unguarded(1) by blast
  have updated_empty:
    "fst (updateCloudFrontDistribution env distributionId inputs log) = Inl (TypeError ''Cannot read property 'Id' of undefined'')"
    if "cf_getDistributionConfig env log distributionId = Inr response \<and>
        DistributionConfig response = Some fetched \<and>
        provisioned env inputs (log @ [GetDistributionConfig distributionId]) oai \<and>
        Items (fst (parseInputOrigins env (origins inputs) oai)) = []"
    for oai response fetched
    using that update_unguarded(1) by blast
  have created:
    "\<exists>req. submitted_creates (calls_of (createCloudFrontDistribution env inputs) log) = [req] \<and>
       DefaultCacheBehavior (cr_DistributionConfig req) =
         getDefaultCacheBehavior env
           (origin_Id (Items (fst (parseInputOrigins env (origins inputs) oai)) ! 0))
           (defaults inputs)"
    if "provisioned env inputs log oai \<and>
        Items (fst (parseInputOrigins env (origins inputs) oai)) \<noteq> []" for oai
    using that create_provisioned [of env inputs log oai] by blast
  have updated:
    "\<exists>req. submitted_updates
             (calls_of (updateCloudFrontDistribution env distributionId inputs) log) = [req] \<and>
       DefaultCacheBehavior (ur_DistributionConfig req) =
         getDefaultCacheBehavior env
           (origin_Id (Items (fst (parseInputOrigins env (origins inputs) oai)) ! 0))
           (defaults inputs)"
    if "cf_getDistributionConfig env log distributionId = Inr response \<and>
        DistributionConfig response = Some fetched \<and>
        provisioned env inputs (log @ [GetDistributionConfig distributionId]) oai \<and>
        Items (fst (parseInputOrigins env (origins inputs) oai)) \<noteq> []"
    for oai response fetched
    using that update_provisioned [of env log distributionId response fetched inputs oai]
    by simp
  from cases [THEN conjunct1] cases [THEN conjunct2] created_empty updated_empty created updated
  show ?thesis by (intro conjI allI impI) blast+
qed

lemma demo_spec_nonempty:
  "\<forall>oai. Items (fst (parseInputOrigins demo_env (origins demo_inputs) oai)) \<noteq> []"
  by (simp add: demo_env_sel spec_Items demo_inputs_def)

lemma demo_empty_parse:
  "parseInputOrigins demo_empty_env inputOrigins oai = (\<lparr>Quantity = 0, Items = []\<rparr>, None)"
  by (simp add: demo_empty_env_def)

lemma demo_empty_sel:
  "cf_getDistributionConfig demo_empty_env log i = Inr demo_response"
  "createOriginAccessIdentity demo_empty_env log = Inr demo_identity"
  by (simp_all add: demo_empty_env_def demo_env_def)

lemma demo_private_inputs_private: "servePrivateContentEnabled demo_private_inputs"
  by (simp add: servePrivateContentEnabled_def demo_private_inputs_def)

lemma demo_empty_provisioned:
  "provisioned demo_empty_env demo_inputs log None"
  "provisioned demo_empty_env demo_private_inputs log (Some ''OAI1'')"
  by (simp_all add: provisioned_def demo_plain demo_private_inputs_private demo_empty_sel
        demo_empty_parse demo_identity_def updateBucketsPolicies_def Promise_all_def)

text \<open>
  The parser of the test double returns two origins for \<open>demo_inputs\<close>: create and update
  do not fail with a \<open>TypeError\<close>. The parser of \<open>demo_empty_env\<close> returns none: create
  fails with the \<open>TypeError\<close>, and so does update after the fetch, without a private
  origin as well as with one, after the provisioner has returned.
\<close>

theorem first_origin_in_bounds_witness:
  "(\<forall>oai. Items (fst (parseInputOrigins demo_env (origins demo_inputs) oai)) \<noteq> []) \<and>
   (\<forall>m. fst (createCloudFrontDistribution demo_env demo_inputs []) \<noteq> Inl (TypeError m)) \<and>
   (\<forall>m. fst (updateCloudFrontDistribution demo_env ''E1'' demo_inputs []) \<noteq> Inl (TypeError m)) \<and>
   (\<forall>oai. Items (fst (parseInputOrigins demo_empty_env (origins demo_inputs) oai)) = []) \<and>
   fst (createCloudFrontDistribution demo_empty_env demo_inputs []) =
     Inl (TypeError ''Cannot read property 'Id' of undefined'') \<and>
   fst (updateCloudFrontDistribution demo_empty_env ''E1'' demo_inputs []) =
     Inl (TypeError ''Cannot read property 'Id' of undefined'') \<and>
   fst (updateCloudFrontDistribution demo_empty_env ''E1'' demo_private_inputs []) =
     Inl (TypeError ''Cannot read property 'Id' of undefined'')"
proof -
  have plain: "\<not> servePrivateContentEnabled demo_inputs"
    by (rule demo_plain)
  have empty: "Items (fst (parseInputOrigins demo_empty_env inputOrigins oai)) = []"
    for inputOrigins oai
    by (simp add: demo_empty_parse)
  note full = first_origin_in_bounds [of demo_env demo_inputs "[]" "''E1''"]
  note none = first_origin_in_bounds [of demo_empty_env demo_inputs "[]" "''E1''"]
  note none_private = first_origin_in_bounds [of demo_empty_env demo_private_inputs "[]" "''E1''"]
  from full [THEN conjunct1] demo_spec_nonempty
  have bounds: "(\<forall>m. fst (createCloudFrontDistribution demo_env demo_inputs []) \<noteq> Inl (TypeError m)) \<and>
      (\<forall>m. fst (updateCloudFrontDistribution demo_env ''E1'' demo_inputs []) \<noteq> Inl (TypeError m))"
    by blast
  from none [THEN conjunct2, THEN conjunct1] empty plain
  have created: "fst (createCloudFrontDistribution demo_empty_env demo_inputs []) =
      Inl (TypeError ''Cannot read property 'Id' of undefined'')"
    by blast
  from none [THEN conjunct2, THEN conjunct2, THEN conjunct2, THEN conjunct1, rule_format,
             of demo_response demo_config None]
  have updated: "fst (updateCloudFrontDistribution demo_empty_env ''E1'' demo_inputs []) =
      Inl (TypeError ''Cannot read property 'Id' of undefined'')"
    by (simp add: demo_empty_sel demo_response_sel demo_empty_provisioned empty)
  from none_private [THEN conjunct2, THEN conjunct2, THEN conjunct2, THEN conjunct1, rule_format,
             of demo_response demo_config "Some ''OAI1''"]
  have updated_private:
    "fst (updateCloudFrontDistribution demo_empty_env ''E1'' demo_private_inputs []) =
      Inl (TypeError ''Cannot read property 'Id' of undefined'')"
    by (simp add: demo_empty_sel demo_response_sel demo_empty_provisioned empty)
  from demo_spec_nonempty bounds empty created updated updated_private
  show ?thesis by blast
qed

section \<open>Provisioning and grants\<close>












section \<open>Update\<close>

lemma with_Enabled_other:
  assumes "\<forall>c \<in> set cs. c = CreateOriginAccessIdentity \<or> is_grant c"
  shows "map (with_Enabled b) cs = cs"
  using assms by (induction cs) (auto elim: is_grant.elims)

lemma update_submitted_fetched:
  assumes "req \<in> set (submitted_updates (calls_of (updateCloudFrontDistribution env i inputs) log))"
  shows "\<exists>response fetched.
           cf_getDistributionConfig env log i = Inr response \<and>
           DistributionConfig response = Some fetched \<and>
           CallerReference (ur_DistributionConfig req) = CallerReference fetched \<and>
           ur_IfMatch req = ETag response \<and> ur_Id req = i \<and>
           Enabled (ur_DistributionConfig req) = enabled inputs"
proof (cases "cf_getDistributionConfig env log i")
  case (Inl e)
  with assms show ?thesis by (simp add: update_submitted)
next
  case (Inr response)
  show ?thesis
  proof (cases "DistributionConfig response")
    case None
    with assms Inr show ?thesis by (simp add: update_submitted)
  next
    case (Some fetched)
    obtain r log' where p: "prepare env inputs (log @ [GetDistributionConfig i]) = (r, log')"
      by fastforce
    show ?thesis
    proof (cases r)
      case (Inl e)
      with assms Inr Some p show ?thesis by (simp add: update_submitted)
    next
      case r: (Inr prepared)
      obtain origins' behaviors' targetOriginId
        where "prepared = (origins', behaviors', targetOriginId)"
        by (cases prepared)
      with assms Inr Some p r show ?thesis by (simp add: update_submitted)
    qed
  qed
qed

lemma update_enabled:
  "calls_of (updateCloudFrontDistribution env i (inputs\<lparr>enabled := b\<rparr>)) log =
     map (with_Enabled b) (calls_of (updateCloudFrontDistribution env i inputs) log)"
proof (cases "cf_getDistributionConfig env log i")
  case (Inl e)
  then show ?thesis by (simp add: update_calls)
next
  case (Inr response)
  show ?thesis
  proof (cases "DistributionConfig response")
    case None
    with Inr show ?thesis by (simp add: update_calls)
  next
    case (Some fetched)
    obtain r log' where p: "prepare env inputs (log @ [GetDistributionConfig i]) = (r, log')"
      by fastforce
    note other = with_Enabled_other [OF prepare_calls_kind]
    show ?thesis
    proof (cases r)
      case (Inl e)
      with Inr Some p show ?thesis
        by (simp add: update_calls prepare_enabled other)
    next
      case r: (Inr prepared)
      obtain origins' behaviors' targetOriginId
        where "prepared = (origins', behaviors', targetOriginId)"
        by (cases prepared)
      with Inr Some p r show ?thesis
        by (simp add: update_calls prepare_enabled other)
    qed
  qed
qed

text \<open>
  Claim C4, as the code has it. Every update request that is submitted carries the
  \<open>CallerReference\<close> of the configuration that the fetch returned, is guarded by the fetched
  \<open>ETag\<close>, names the same distribution, and has the \<open>Enabled\<close> field equal to \<open>enabled\<close>
  of the inputs. Two updates whose inputs differ only in \<open>enabled\<close>, true in one and false
  in the other, issue the same calls, except that the \<open>Enabled\<close> field of the submitted
  \<open>DistributionConfig\<close> is false in place of true; more generally, setting \<open>enabled\<close> to
  \<open>b\<close> in the inputs changes nothing in the calls but the \<open>Enabled\<close> field of the submitted
  configuration, which becomes \<open>b\<close>. When the fetch returns a configuration and nothing
  fails before the request, exactly one update request is submitted: it is rebuilt from
  the inputs, and of the fetched configuration it keeps the \<open>CallerReference\<close> only.
\<close>

theorem update_preserves_caller_reference:
  "(\<forall>req \<in> set (submitted_updates
                   (calls_of (updateCloudFrontDistribution env distributionId inputs) log)).
      \<exists>response fetched.
        cf_getDistributionConfig env log distributionId = Inr response \<and>
        DistributionConfig response = Some fetched \<and>
        CallerReference (ur_DistributionConfig req) = CallerReference fetched \<and>
        ur_IfMatch req = ETag response \<and> ur_Id req = distributionId \<and>
        Enabled (ur_DistributionConfig req) = enabled inputs)
 \<and> calls_of (updateCloudFrontDistribution env distributionId (inputs\<lparr>enabled := False\<rparr>)) log =
     map (with_Enabled False)
       (calls_of (updateCloudFrontDistribution env distributionId (inputs\<lparr>enabled := True\<rparr>)) log)
 \<and> (\<forall>b. calls_of (updateCloudFrontDistribution env distributionId (inputs\<lparr>enabled := b\<rparr>)) log =
          map (with_Enabled b)
            (calls_of (updateCloudFrontDistribution env distributionId inputs) log))
 \<and> (\<forall>oai response fetched.
        cf_getDistributionConfig env log distributionId = Inr response \<and>
        DistributionConfig response = Some fetched \<and>
        provisioned env inputs (log @ [GetDistributionConfig distributionId]) oai \<and>
        Items (fst (parseInputOrigins env (origins inputs) oai)) \<noteq> [] \<longrightarrow>
      submitted_updates
        (calls_of (updateCloudFrontDistribution env distributionId inputs) log) =
        [\<lparr>ur_Id = distributionId,
          ur_IfMatch = ETag response,
          ur_DistributionConfig =
            \<lparr>CallerReference = CallerReference fetched,
             Comment = comment inputs,
             Aliases = None,
             Origins = fst (parseInputOrigins env (origins inputs) oai),
             PriceClass = None,
             Enabled = enabled inputs,
             HttpVersion = None,
             DefaultCacheBehavior =
               getDefaultCacheBehavior env
                 (origin_Id (Items (fst (parseInputOrigins env (origins inputs) oai)) ! 0))
                 (defaults inputs),
             CacheBehaviors = snd (parseInputOrigins env (origins inputs) oai)\<rparr>\<rparr>])"
proof -
  have fetched: "\<forall>req \<in> set (submitted_updates
                   (calls_of (updateCloudFrontDistribution env distributionId inputs) log)).
      \<exists>response fetched.
        cf_getDistributionConfig env log distributionId = Inr response \<and>
        DistributionConfig response = Some fetched \<and>
        CallerReference (ur_DistributionConfig req) = CallerReference fetched \<and>
        ur_IfMatch req = ETag response \<and> ur_Id req = distributionId \<and>
        Enabled (ur_DistributionConfig req) = enabled inputs"
    using update_submitted_fetched [of _ env distributionId inputs log] by blast
  have switched:
    "calls_of (updateCloudFrontDistribution env distributionId (inputs\<lparr>enabled := False\<rparr>)) log =
     map (with_Enabled False)
       (calls_of (updateCloudFrontDistribution env distributionId (inputs\<lparr>enabled := True\<rparr>)) log)"
    using update_enabled [where b = False and inputs = "inputs\<lparr>enabled := True\<rparr>"]
    by simp
  have set: "\<forall>b. calls_of (updateCloudFrontDistribution env distributionId
                            (inputs\<lparr>enabled := b\<rparr>)) log =
          map (with_Enabled b)
            (calls_of (updateCloudFrontDistribution env distributionId inputs) log)"
    by (simp add: update_enabled)
  have exact: "submitted_updates
        (calls_of (updateCloudFrontDistribution env distributionId inputs) log) =
        [\<lparr>ur_Id = distributionId,
          ur_IfMatch = ETag response,
          ur_DistributionConfig =
            \<lparr>CallerReference = CallerReference fetched,
             Comment = comment inputs,
             Aliases = None,
             Origins = fst (parseInputOrigins env (origins inputs) oai),
             PriceClass = None,
             Enabled = enabled inputs,
             HttpVersion = None,
             DefaultCacheBehavior =
               getDefaultCacheBehavior env
                 (origin_Id (Items (fst (parseInputOrigins env (origins inputs) oai)) ! 0))
                 (defaults inputs),
             CacheBehaviors = snd (parseInputOrigins env (origins inputs) oai)\<rparr>\<rparr>]"
    if "cf_getDistributionConfig env log distributionId = Inr response \<and>
        DistributionConfig response = Some fetched \<and>
        provisioned env inputs (log @ [GetDistributionConfig distributionId]) oai \<and>
        Items (fst (parseInputOrigins env (origins inputs) oai)) \<noteq> []"
    for oai response fetched
    using that update_provisioned [of env log distributionId response fetched inputs oai]
    by simp
  from fetched switched set exact show ?thesis
    by (intro conjI allI impI) blast+
qed

lemma demo_update:
  "submitted_updates (calls_of (updateCloudFrontDistribution demo_env ''E1''
       (demo_inputs\<lparr>enabled := b\<rparr>)) log) =
     [\<lparr>ur_Id = ''E1'', ur_IfMatch = Some ''ETAG1'',
       ur_DistributionConfig =
         demo_config\<lparr>Enabled := b, Aliases := None, PriceClass := None, HttpVersion := None\<rparr>\<rparr>]"
  by (simp add: update_submitted demo_get demo_response_sel prepare_enabled demo_prepare
        demo_default demo_inputs_sel demo_config_def)

text \<open>
  The provider of the test double holds \<open>demo_config\<close> under the tag \<open>ETAG1\<close>: the update
  with \<open>enabled\<close> false submits \<open>Enabled\<close> false, the update with \<open>enabled\<close> true submits
  \<open>Enabled\<close> true, both with the fetched \<open>CallerReference\<close>.
\<close>

theorem update_preserves_caller_reference_witness:
  "map (\<lambda>req. (CallerReference (ur_DistributionConfig req), ur_IfMatch req, ur_Id req,
               Enabled (ur_DistributionConfig req)))
     (submitted_updates (calls_of (updateCloudFrontDistribution demo_env ''E1''
        (demo_inputs\<lparr>enabled := False\<rparr>)) [])) =
     [(CallerReference demo_config, Some ''ETAG1'', ''E1'', False)] \<and>
   map (\<lambda>req. (CallerReference (ur_DistributionConfig req), ur_IfMatch req, ur_Id req,
               Enabled (ur_DistributionConfig req)))
     (submitted_updates (calls_of (updateCloudFrontDistribution demo_env ''E1''
        (demo_inputs\<lparr>enabled := True\<rparr>)) [])) =
     [(CallerReference demo_config, Some ''ETAG1'', ''E1'', True)]"
proof -
  have run: "map (\<lambda>req. (CallerReference (ur_DistributionConfig req), ur_IfMatch req, ur_Id req,
               Enabled (ur_DistributionConfig req)))
     (submitted_updates (calls_of (updateCloudFrontDistribution demo_env ''E1''
        (demo_inputs\<lparr>enabled := b\<rparr>)) [])) =
     [(CallerReference demo_config, Some ''ETAG1'', ''E1'', b)]" for b
  proof -
    have "provisioned demo_env (demo_inputs\<lparr>enabled := b\<rparr>)
        ([] @ [GetDistributionConfig ''E1'']) None"
      by (simp add: provisioned_def demo_plain)
    moreover have "Items (fst (parseInputOrigins demo_env
        (origins (demo_inputs\<lparr>enabled := b\<rparr>)) None)) \<noteq> []"
      by (simp add: demo_parse)
    ultimately obtain req
      where submitted: "submitted_updates (calls_of (updateCloudFrontDistribution demo_env ''E1''
          (demo_inputs\<lparr>enabled := b\<rparr>)) []) = [req]"
      using update_preserves_caller_reference
        [of demo_env "''E1''" "demo_inputs\<lparr>enabled := b\<rparr>" "[]",
         THEN conjunct2, THEN conjunct2, THEN conjunct2, rule_format,
         of demo_response demo_config None]
        demo_get demo_response_sel
      by blast
    then have "req \<in> set (submitted_updates (calls_of (updateCloudFrontDistribution demo_env ''E1''
        (demo_inputs\<lparr>enabled := b\<rparr>)) []))"
      by simp
    from update_preserves_caller_reference
      [of demo_env "''E1''" "demo_inputs\<lparr>enabled := b\<rparr>" "[]", THEN conjunct1,
       rule_format, OF this]
    have "CallerReference (ur_DistributionConfig req) = CallerReference demo_config \<and>
        ur_IfMatch req = Some ''ETAG1'' \<and> ur_Id req = ''E1'' \<and>
        Enabled (ur_DistributionConfig req) = b"
      by (auto simp: demo_get demo_response_sel)
    with submitted show ?thesis by simp
  qed
  from run [of False] run [of True] show ?thesis by blast
qed

lemma demo_config_changed:
  "demo_config\<lparr>Enabled := False, Aliases := None, PriceClass := None, HttpVersion := None\<rparr> \<noteq>
     demo_config\<lparr>Enabled := False\<rparr>"
  by (simp add: demo_config_def)

text \<open>
  Claim C4, as stated, fails in its second part. The provider holds the configuration
  that create submitted for \<open>demo_inputs\<close>, where \<open>enabled\<close> is true. An update with the
  same inputs, except that \<open>enabled\<close> is false, submits a configuration that differs from
  the fetched one in \<open>Aliases\<close>, \<open>PriceClass\<close> and \<open>HttpVersion\<close> as well as in \<open>Enabled\<close>.
\<close>

theorem update_drops_fields_counterexample:
  "submitted_creates (calls_of (createCloudFrontDistribution demo_env demo_inputs) []) =
     [\<lparr>cr_DistributionConfig = demo_config\<rparr>] \<and>
   cf_getDistributionConfig demo_env [] ''E1'' = Inr demo_response \<and>
   DistributionConfig demo_response = Some demo_config \<and>
   enabled demo_inputs = True \<and>
   map ur_DistributionConfig
     (submitted_updates (calls_of (updateCloudFrontDistribution demo_env ''E1''
        (demo_inputs\<lparr>enabled := False\<rparr>)) [])) =
     [demo_config\<lparr>Enabled := False, Aliases := None, PriceClass := None, HttpVersion := None\<rparr>] \<and>
   demo_config\<lparr>Enabled := False, Aliases := None, PriceClass := None, HttpVersion := None\<rparr> \<noteq>
     demo_config\<lparr>Enabled := False\<rparr>"
  using demo_config_changed
  by (simp add: demo_create demo_get demo_response_sel demo_inputs_sel demo_update)

end
